theory Spec2Isabelle
  imports Main "HOL-Library.Sublist"
begin

section \<open>Values shared by the stacks\<close>

text \<open>
  A construct is identified by its path in the construct tree: the ids from the root down
  to the construct.  \<open>new X(scope, id, ...)\<close> creates the construct at \<open>scope @ [id]\<close>.
  Objects handed over in props (the VPC, the buckets, the key, the topic) are constructs of
  other stacks and are referred to by their paths.
\<close>

type_synonym path = "string list"

datatype Duration = Days nat | Minutes nat | Seconds nat

text \<open>
  Strings that the framework only resolves at deployment (ARNs, generated names) are kept
  symbolic; \<open>Concat\<close> is the \<open>+\<close> of the host language on such strings.  \<open>AccountId c\<close> is
  the account of the stack of the construct \<open>c\<close>, \<open>ElbAccountId c\<close> the account that delivers
  load balancer logs in the region of that stack, and \<open>S3CanonicalUserId d\<close> the canonical
  user of the origin access identity of the distribution \<open>d\<close>.
\<close>

datatype tokstr =
    Lit string
  | BucketArn path
  | ArnForObjects path string
  | LoadBalancerArn path
  | AttrArn path
  | ClusterName path
  | ServiceName path
  | AccountId path
  | ElbAccountId path
  | S3CanonicalUserId path
  | Concat tokstr tokstr

record Environment =
  account :: "string option"
  region :: "string option"

record StackProps =
  description :: "string option"
  env :: "Environment option"
  stackName :: "string option"
  tags :: "(string \<times> string) list"
  terminationProtection :: "bool option"
  crossRegionReferences :: "bool option"

subsection \<open>ec2\<close>

datatype Peer = AnyIpv4 | SecurityGroupPeer path

datatype Port = Tcp nat | AllTcp

record SecurityGroupProps =
  sg_vpc :: path
  sg_allowAllOutbound :: "bool option"

record SecurityGroup =
  sg_props :: SecurityGroupProps
  ingressRules :: "(Peer \<times> Port) list"
  egressRules :: "(Peer \<times> Port) list"

record SelectedSubnets =
  sel_vpc :: path
  subnetGroupName :: string

datatype InstanceClass = T2 | T3 | M5

datatype InstanceSize = NANO | MICRO | SMALL | MEDIUM | LARGE

datatype InstanceType = InstanceType_of InstanceClass InstanceSize

datatype AmazonLinuxGeneration = AMAZON_LINUX | AMAZON_LINUX_2

datatype MachineImage = AmazonLinuxImage AmazonLinuxGeneration

record UserData =
  shebang :: string
  commands :: "string list"

record Instance =
  inst_vpc :: path
  inst_vpcSubnets :: SelectedSubnets
  inst_instanceType :: InstanceType
  inst_machineImage :: MachineImage
  inst_securityGroup :: path
  inst_role :: path
  inst_userData :: UserData

subsection \<open>iam\<close>

datatype Effect = ALLOW | DENY

datatype Principal =
    AnyPrincipal
  | ServicePrincipal string
  | AccountPrincipal tokstr
  | CanonicalUserPrincipal tokstr

record PolicyStatement =
  effect :: Effect
  principals :: "Principal list"
  actions :: "string list"
  resources :: "tokstr list"
  conditions :: "(string \<times> (string \<times> string) list) list"

record Role =
  assumedBy :: Principal
  role_path :: string
  managedPolicies :: "string list"

subsection \<open>s3\<close>

datatype BucketAccessControl =
  PRIVATE | PUBLIC_READ | PUBLIC_READ_WRITE | AUTHENTICATED_READ | LOG_DELIVERY_WRITE

datatype StorageClass = INFREQUENT_ACCESS | INTELLIGENT_TIERING | GLACIER | DEEP_ARCHIVE

datatype RemovalPolicy = DESTROY | RETAIN | SNAPSHOT

datatype BucketEncryption = UNENCRYPTED | KMS_MANAGED | S3_MANAGED | KMS

datatype BlockPublicAccess = BLOCK_ALL | BLOCK_ACLS

datatype HttpMethods = GET | PUT | HEAD | POST | DELETE

record Transition =
  storageClass :: StorageClass
  transitionAfter :: Duration

record LifecycleRule =
  enabled :: bool
  expiration :: Duration
  transitions :: "Transition list"

record CorsRule =
  allowedOrigins :: "string list"
  allowedMethods :: "HttpMethods list"

record BucketProps =
  accessControl :: "BucketAccessControl option"
  lifecycleRules :: "LifecycleRule list"
  removalPolicy :: "RemovalPolicy option"
  versioned :: "bool option"
  encryptionKey :: "path option"
  encryption :: "BucketEncryption option"
  cors :: "CorsRule list"
  blockPublicAccess :: "BlockPublicAccess option"

record Bucket =
  bucket_props :: BucketProps
  resourcePolicy :: "PolicyStatement list"

subsection \<open>autoscaling\<close>

datatype HealthCheck = HealthCheck_elb Duration

record AutoScalingGroupProps =
  minCapacity :: nat
  maxCapacity :: nat
  asg_vpc :: path
  asg_vpcSubnets :: SelectedSubnets
  asg_instanceType :: InstanceType
  asg_machineImage :: MachineImage
  asg_securityGroup :: path
  asg_role :: path
  asg_userData :: UserData
  asg_healthCheck :: HealthCheck

record AutoScalingGroup =
  asg_props :: AutoScalingGroupProps
  attachedTargetGroups :: "path list"

record CpuUtilizationScaling =
  targetUtilizationPercent :: nat

subsection \<open>elasticloadbalancingv2\<close>

datatype ApplicationProtocol = HTTP | HTTPS

datatype TargetType = INSTANCE | IP | LAMBDA

datatype HttpCodeElb = ELB_3XX_COUNT | ELB_4XX_COUNT | ELB_5XX_COUNT

record ApplicationLoadBalancerProps =
  alb_vpc :: path
  internetFacing :: bool
  alb_securityGroup :: path
  alb_vpcSubnets :: SelectedSubnets

record ApplicationLoadBalancer =
  alb_props :: ApplicationLoadBalancerProps
  accessLogsBucket :: "path option"

record TargetGroupHealthCheck =
  hc_enabled :: bool
  hc_path :: string

record ApplicationTargetGroupProps =
  tg_vpc :: path
  tg_port :: nat
  tg_protocol :: ApplicationProtocol
  targetType :: TargetType
  tg_healthCheck :: TargetGroupHealthCheck
  deregistrationDelay :: Duration

text \<open>
  A target group knows the listeners that forward to it and the members attached to it:
  the framework opens the security groups between the two when either side is added.
\<close>

record ApplicationTargetGroup =
  tg_props :: ApplicationTargetGroupProps
  tg_listeners :: "path list"
  tg_members :: "path list"

record ApplicationListener =
  listener_port :: nat
  listener_open :: bool
  defaultTargetGroups :: "path list"

subsection \<open>cloudfront, ecs\<close>

datatype Origin = S3Origin path

datatype OriginRequestPolicy = CORS_S3_ORIGIN | ALL_VIEWER | USER_AGENT_REFERER_HEADERS

record Distribution =
  origin :: Origin
  originRequestPolicy :: OriginRequestPolicy

record Cluster =
  cluster_vpc :: path
  containerInsights :: bool

datatype ContainerImage = ContainerImage_fromRegistry string

record ApplicationLoadBalancedFargateServiceProps =
  fargate_cluster :: path
  fargate_loadBalancer :: path
  taskSubnets :: SelectedSubnets
  taskImage :: ContainerImage

text \<open>
  The pattern construct owns a service and a target group, reached in the source as
  \<open>albFargate.service\<close> and \<open>albFargate.targetGroup\<close>.  Both are addressed through the
  path of the pattern construct; the attributes set on its target group after construction
  are kept with it.  The listener the pattern puts on its load balancer and the rules it
  adds between the security groups of the load balancer and of the service belong to the
  pattern as well.
\<close>

record ApplicationLoadBalancedFargateService =
  fargate_props :: ApplicationLoadBalancedFargateServiceProps
  targetGroupAttributes :: "(string \<times> string) list"

subsection \<open>cloudwatch\<close>

datatype Statistic = AVERAGE | SUM_statistic | MINIMUM | MAXIMUM | SAMPLE_COUNT

datatype ComparisonOperator =
    GREATER_THAN_OR_EQUAL_TO_THRESHOLD
  | GREATER_THAN_THRESHOLD
  | LESS_THAN_THRESHOLD
  | LESS_THAN_OR_EQUAL_TO_THRESHOLD

text \<open>
  A metric is either taken from a construct by one of its \<open>metric...\<close> methods, or built
  with \<open>new cw.Metric\<close> from a name, a namespace and dimensions.
\<close>

datatype MetricSource =
    ServiceCpuUtilization path
  | NamedMetric string string "(string \<times> tokstr) list"
  | LbTargetResponseTime path
  | LbHttpCodeElb path HttpCodeElb
  | TargetGroupHealthyHostCount path

record Metric =
  metricSource :: MetricSource
  period :: Duration
  statistic :: Statistic

datatype AlarmAction = SnsAction path

record CreateAlarmOptions =
  evaluationPeriods :: nat
  datapointsToAlarm :: "nat option"
  threshold :: int
  comparisonOperator :: ComparisonOperator
  actionsEnabled :: bool

record Alarm =
  alarm_metric :: Metric
  alarm_options :: CreateAlarmOptions
  alarmActions :: "AlarmAction list"

subsection \<open>wafv2\<close>

datatype DefaultAction = Allow | Block

datatype OverrideAction = Count | NoOverride

record VisibilityConfig =
  cloudWatchMetricsEnabled :: bool
  metricName :: string
  sampledRequestsEnabled :: bool

record ManagedRuleGroup =
  vendorName :: string
  ruleGroupName :: string

datatype Statement = ManagedRuleGroupStatement ManagedRuleGroup

record Rule =
  priority :: nat
  overrideAction :: OverrideAction
  rule_visibilityConfig :: VisibilityConfig
  rule_name :: string
  statement :: Statement

record CfnWebACL =
  defaultAction :: DefaultAction
  acl_name :: string
  acl_scope :: string
  acl_visibilityConfig :: VisibilityConfig
  rules :: "Rule list"

record CfnWebACLAssociation =
  resourceArn :: tokstr
  webAclArn :: tokstr

section \<open>The construct tree\<close>

text \<open>
  The two application stack classes declare the public field \<open>appServerSecurityGroup\<close>, the
  investigation stack declares \<open>InvestigationInstanceSecurityGroup\<close>.  A declared field
  that has not been assigned reads as undefined: \<open>None\<close>.
\<close>

record AppStackFields =
  app_stackProps :: StackProps
  appServerSecurityGroup :: "path option"

record InvestigationStackFields =
  inv_stackProps :: StackProps
  InvestigationInstanceSecurityGroup :: "path option"

datatype construct =
    BsEc2appStackC AppStackFields
  | GcAlbFargateStackC AppStackFields
  | GcInvestigationInstanceStackC InvestigationStackFields
  | SecurityGroupC SecurityGroup
  | BucketC Bucket
  | RoleC Role
  | InstanceC Instance
  | AutoScalingGroupC AutoScalingGroup
  | ScalingPolicyC CpuUtilizationScaling
  | ApplicationLoadBalancerC ApplicationLoadBalancer
  | ApplicationTargetGroupC ApplicationTargetGroup
  | ApplicationListenerC ApplicationListener
  | DistributionC Distribution
  | ClusterC Cluster
  | ApplicationLoadBalancedFargateServiceC ApplicationLoadBalancedFargateService
  | AlarmC Alarm
  | CfnWebACLC CfnWebACL
  | CfnWebACLAssociationC CfnWebACLAssociation
  | VpcC
  | KeyC
  | TopicC

record Tag =
  tag_key :: string
  tag_value :: string
  applyToLaunchedInstances :: "bool option"

record node =
  construct :: construct
  appliedTags :: "Tag list"

type_synonym tree = "path \<rightharpoonup> node"

text \<open>\<open>new X(scope, id, ...)\<close>: the new construct is stored under its path, which is its handle.\<close>

definition new_construct :: "path \<Rightarrow> string \<Rightarrow> construct \<Rightarrow> tree \<Rightarrow> path \<times> tree" where
  "new_construct scope cid c w =
     (scope @ [cid], w(scope @ [cid] \<mapsto> \<lparr>construct = c, appliedTags = []\<rparr>))"

text \<open>
  A method that changes the state of the construct behind a handle.  The handles of the
  source are typed, so a method always meets a construct of its own class; called on
  anything else, the model leaves the tree as it is.
\<close>

definition modify :: "path \<Rightarrow> (construct \<Rightarrow> construct) \<Rightarrow> tree \<Rightarrow> tree" where
  "modify r f w =
     (case w r of
        None \<Rightarrow> w
      | Some n \<Rightarrow> w(r \<mapsto> n\<lparr>construct := f (construct n)\<rparr>))"

text \<open>\<open>Tags.of(c).add(key, value, props)\<close>\<close>

definition Tags_add :: "path \<Rightarrow> string \<Rightarrow> string \<Rightarrow> bool option \<Rightarrow> tree \<Rightarrow> tree" where
  "Tags_add r k v launched w =
     (case w r of
        None \<Rightarrow> w
      | Some n \<Rightarrow>
          w(r \<mapsto> n\<lparr>appliedTags := appliedTags n @
                 [\<lparr>tag_key = k, tag_value = v, applyToLaunchedInstances = launched\<rparr>]\<rparr>))"

subsection \<open>Reading the tree\<close>

definition constructAt :: "tree \<Rightarrow> path \<Rightarrow> construct option" where
  "constructAt w x = map_option construct (w x)"

definition securityGroupAt :: "tree \<Rightarrow> path \<Rightarrow> SecurityGroup option" where
  "securityGroupAt w x = (case constructAt w x of Some (SecurityGroupC s) \<Rightarrow> Some s | _ \<Rightarrow> None)"

definition bucketAt :: "tree \<Rightarrow> path \<Rightarrow> Bucket option" where
  "bucketAt w x = (case constructAt w x of Some (BucketC s) \<Rightarrow> Some s | _ \<Rightarrow> None)"

definition autoScalingGroupAt :: "tree \<Rightarrow> path \<Rightarrow> AutoScalingGroup option" where
  "autoScalingGroupAt w x =
     (case constructAt w x of Some (AutoScalingGroupC s) \<Rightarrow> Some s | _ \<Rightarrow> None)"

definition loadBalancerAt :: "tree \<Rightarrow> path \<Rightarrow> ApplicationLoadBalancer option" where
  "loadBalancerAt w x =
     (case constructAt w x of Some (ApplicationLoadBalancerC s) \<Rightarrow> Some s | _ \<Rightarrow> None)"

definition targetGroupAt :: "tree \<Rightarrow> path \<Rightarrow> ApplicationTargetGroup option" where
  "targetGroupAt w x =
     (case constructAt w x of Some (ApplicationTargetGroupC s) \<Rightarrow> Some s | _ \<Rightarrow> None)"

definition listenerAt :: "tree \<Rightarrow> path \<Rightarrow> ApplicationListener option" where
  "listenerAt w x =
     (case constructAt w x of Some (ApplicationListenerC s) \<Rightarrow> Some s | _ \<Rightarrow> None)"

definition alarmAt :: "tree \<Rightarrow> path \<Rightarrow> Alarm option" where
  "alarmAt w x = (case constructAt w x of Some (AlarmC s) \<Rightarrow> Some s | _ \<Rightarrow> None)"

definition webAclAt :: "tree \<Rightarrow> path \<Rightarrow> CfnWebACL option" where
  "webAclAt w x = (case constructAt w x of Some (CfnWebACLC s) \<Rightarrow> Some s | _ \<Rightarrow> None)"

subsection \<open>Methods of the constructs\<close>

text \<open>
  The classes of the framework are used, not defined, by the stacks.  A constructor call is
  modelled by the construct stored with the props it was given, a method call by what it
  leaves in the tree: its arguments recorded in the state of the construct it is called
  on and, where the framework reaches further, what it writes to the constructs handed to
  it (security group rules between a load balancer and its targets, statements in the
  policy of a bucket that receives logs or serves as an origin).  Values built without a
  scope (user data, metrics, policy statements, SNS actions) are plain values.

  Two things are left out.  An id that is already taken in its scope makes the framework
  raise an error; the stacks give distinct ids to their own constructs, and the id of the
  stack is taken to be free in its scope.  The resources a framework construct creates
  for its own implementation, below itself or beside itself in the stack (the launch
  configuration of an auto scaling group, the task definition, service, listener and
  target group of the Fargate pattern, the parameter that names a machine image), have no
  node of their own; all of them lie at or below the path of the stack.
\<close>

definition selectSubnets :: "path \<Rightarrow> string \<Rightarrow> SelectedSubnets" where
  "selectSubnets vpc g = \<lparr>sel_vpc = vpc, subnetGroupName = g\<rparr>"

definition new_SecurityGroup :: "path \<Rightarrow> string \<Rightarrow> SecurityGroupProps \<Rightarrow> tree \<Rightarrow> path \<times> tree" where
  "new_SecurityGroup scope cid ps =
     new_construct scope cid
       (SecurityGroupC \<lparr>sg_props = ps, ingressRules = [], egressRules = []\<rparr>)"

text \<open>
  A rule that the security group already has is not added again.  Egress rules are only
  kept by a group created with \<open>allowAllOutbound\<close> false; the default is true, and such a
  group ignores them.
\<close>

definition addIngressRule :: "path \<Rightarrow> Peer \<Rightarrow> Port \<Rightarrow> tree \<Rightarrow> tree" where
  "addIngressRule sg peer port =
     modify sg (\<lambda>c. case c of
        SecurityGroupC s \<Rightarrow>
          SecurityGroupC
            (if (peer, port) \<in> set (ingressRules s) then s
             else s\<lparr>ingressRules := ingressRules s @ [(peer, port)]\<rparr>)
      | _ \<Rightarrow> c)"

definition addEgressRule :: "path \<Rightarrow> Peer \<Rightarrow> Port \<Rightarrow> tree \<Rightarrow> tree" where
  "addEgressRule sg peer port =
     modify sg (\<lambda>c. case c of
        SecurityGroupC s \<Rightarrow>
          SecurityGroupC
            (if sg_allowAllOutbound (sg_props s) = Some False then
               (if (peer, port) \<in> set (egressRules s) then s
                else s\<lparr>egressRules := egressRules s @ [(peer, port)]\<rparr>)
             else s)
      | _ \<Rightarrow> c)"

text \<open>
  \<open>target.connections.allowFrom(source, port)\<close>: the security group of the target admits
  the security group of the source, and the security group of the source is opened towards
  the target.
\<close>

definition securityGroupOf :: "tree \<Rightarrow> path \<Rightarrow> path option" where
  "securityGroupOf w x =
     (case constructAt w x of
        Some (ApplicationLoadBalancerC s) \<Rightarrow> Some (alb_securityGroup (alb_props s))
      | Some (AutoScalingGroupC s) \<Rightarrow> Some (asg_securityGroup (asg_props s))
      | _ \<Rightarrow> None)"

definition allowFrom :: "path \<Rightarrow> path \<Rightarrow> Port \<Rightarrow> tree \<Rightarrow> tree" where
  "allowFrom target source port w =
     (case securityGroupOf w target of
        None \<Rightarrow> w
      | Some tsg \<Rightarrow>
          (case securityGroupOf w source of
             None \<Rightarrow> w
           | Some ssg \<Rightarrow>
               addEgressRule ssg (SecurityGroupPeer tsg) port
                 (addIngressRule tsg (SecurityGroupPeer ssg) port w)))"

definition new_Bucket :: "path \<Rightarrow> string \<Rightarrow> BucketProps \<Rightarrow> tree \<Rightarrow> path \<times> tree" where
  "new_Bucket scope cid ps =
     new_construct scope cid (BucketC \<lparr>bucket_props = ps, resourcePolicy = []\<rparr>)"

definition addToResourcePolicy :: "path \<Rightarrow> PolicyStatement \<Rightarrow> tree \<Rightarrow> tree" where
  "addToResourcePolicy b st =
     modify b (\<lambda>c. case c of
        BucketC s \<Rightarrow> BucketC (s\<lparr>resourcePolicy := resourcePolicy s @ [st]\<rparr>)
      | _ \<Rightarrow> c)"

definition UserData_forLinux :: "string \<Rightarrow> UserData" where
  "UserData_forLinux sb = \<lparr>shebang = sb, commands = []\<rparr>"

definition addCommands :: "string list \<Rightarrow> UserData \<Rightarrow> UserData" where
  "addCommands cs u = u\<lparr>commands := commands u @ cs\<rparr>"

definition new_AutoScalingGroup ::
  "path \<Rightarrow> string \<Rightarrow> AutoScalingGroupProps \<Rightarrow> tree \<Rightarrow> path \<times> tree" where
  "new_AutoScalingGroup scope cid ps =
     new_construct scope cid (AutoScalingGroupC \<lparr>asg_props = ps, attachedTargetGroups = []\<rparr>)"

text \<open>The framework creates the scaling policy below the group under \<open>ScalingPolicy\<close> + id.\<close>

definition scaleOnCpuUtilization :: "path \<Rightarrow> string \<Rightarrow> CpuUtilizationScaling \<Rightarrow> tree \<Rightarrow> tree" where
  "scaleOnCpuUtilization asg cid ps w =
     snd (new_construct asg (''ScalingPolicy'' @ cid) (ScalingPolicyC ps) w)"

definition new_ApplicationTargetGroup ::
  "path \<Rightarrow> string \<Rightarrow> ApplicationTargetGroupProps \<Rightarrow> tree \<Rightarrow> path \<times> tree" where
  "new_ApplicationTargetGroup scope cid ps =
     new_construct scope cid
       (ApplicationTargetGroupC \<lparr>tg_props = ps, tg_listeners = [], tg_members = []\<rparr>)"

text \<open>
  The group is attached to the target group; every listener that already forwards to the
  target group lets its load balancer reach the group on the port of the target group.
  A listener is created below its load balancer, so \<open>butlast\<close> of its path is the load
  balancer.
\<close>

definition attachToApplicationTargetGroup :: "path \<Rightarrow> path \<Rightarrow> tree \<Rightarrow> tree" where
  "attachToApplicationTargetGroup asg tg w0 =
     (let w = modify asg (\<lambda>c. case c of
            AutoScalingGroupC s \<Rightarrow>
              AutoScalingGroupC (s\<lparr>attachedTargetGroups := attachedTargetGroups s @ [tg]\<rparr>)
          | _ \<Rightarrow> c) w0
      in case targetGroupAt w tg of
           None \<Rightarrow> w
         | Some s \<Rightarrow>
             fold (\<lambda>listener. allowFrom asg (butlast listener) (Tcp (tg_port (tg_props s))))
               (tg_listeners s)
               (modify tg (\<lambda>c. case c of
                    ApplicationTargetGroupC t \<Rightarrow>
                      ApplicationTargetGroupC (t\<lparr>tg_members := tg_members t @ [asg]\<rparr>)
                  | _ \<Rightarrow> c) w))"

definition new_ApplicationLoadBalancer ::
  "path \<Rightarrow> string \<Rightarrow> ApplicationLoadBalancerProps \<Rightarrow> tree \<Rightarrow> path \<times> tree" where
  "new_ApplicationLoadBalancer scope cid ps =
     new_construct scope cid
       (ApplicationLoadBalancerC \<lparr>alb_props = ps, accessLogsBucket = None\<rparr>)"

text \<open>
  The load balancer records the bucket, and the framework writes into the policy of that
  bucket what log delivery needs: put access below \<open>AWSLogs/account\<close> for the load balancing
  account of the region and for the log delivery service, and read access to the ACL of
  the bucket for that service.  (Older releases of the framework write the first statement
  only.)
\<close>

definition logAccessLogs :: "path \<Rightarrow> path \<Rightarrow> tree \<Rightarrow> tree" where
  "logAccessLogs lb b w0 =
     (let
        w = modify lb (\<lambda>c. case c of
            ApplicationLoadBalancerC s \<Rightarrow>
              ApplicationLoadBalancerC (s\<lparr>accessLogsBucket := Some b\<rparr>)
          | _ \<Rightarrow> c) w0;
        logs = Concat (BucketArn b)
          (Concat (Lit ''/AWSLogs/'') (Concat (AccountId lb) (Lit ''/*'')));
        w = addToResourcePolicy b
          \<lparr>effect = ALLOW,
           principals = [AccountPrincipal (ElbAccountId lb)],
           actions = [''s3:PutObject*'', ''s3:Abort*''],
           resources = [logs],
           conditions = []\<rparr> w;
        w = addToResourcePolicy b
          \<lparr>effect = ALLOW,
           principals = [ServicePrincipal ''delivery.logs.amazonaws.com''],
           actions = [''s3:PutObject''],
           resources = [logs],
           conditions = [(''StringEquals'', [(''s3:x-amz-acl'', ''bucket-owner-full-control'')])]\<rparr> w;
        w = addToResourcePolicy b
          \<lparr>effect = ALLOW,
           principals = [ServicePrincipal ''delivery.logs.amazonaws.com''],
           actions = [''s3:GetBucketAcl''],
           resources = [BucketArn b],
           conditions = []\<rparr> w
      in w)"

text \<open>
  A listener registers with each of its default target groups, and its load balancer is
  opened towards the members these target groups already have.  An open listener admits
  any IPv4 address on its port.
\<close>

definition registerListener :: "path \<Rightarrow> path \<Rightarrow> tree \<Rightarrow> tree" where
  "registerListener listener tg w =
     (case targetGroupAt w tg of
        None \<Rightarrow> w
      | Some s \<Rightarrow>
          fold (\<lambda>member. allowFrom member (butlast listener) (Tcp (tg_port (tg_props s))))
            (tg_members s)
            (modify tg (\<lambda>c. case c of
                 ApplicationTargetGroupC t \<Rightarrow>
                   ApplicationTargetGroupC (t\<lparr>tg_listeners := tg_listeners t @ [listener]\<rparr>)
               | _ \<Rightarrow> c) w))"

definition addListener :: "path \<Rightarrow> string \<Rightarrow> ApplicationListener \<Rightarrow> tree \<Rightarrow> tree" where
  "addListener lb cid ps w0 =
     (let
        (listener, w) = new_construct lb cid (ApplicationListenerC ps) w0;
        w = fold (registerListener listener) (defaultTargetGroups ps) w;
        w = (if listener_open ps then
               (case securityGroupOf w lb of
                  None \<Rightarrow> w
                | Some sg \<Rightarrow> addIngressRule sg AnyIpv4 (Tcp (listener_port ps)) w)
             else w)
      in w)"

text \<open>
  A distribution with an S3 origin reads the bucket through an origin access identity, to
  which the framework grants \<open>s3:GetObject\<close> in the policy of the bucket.
\<close>

definition new_Distribution :: "path \<Rightarrow> string \<Rightarrow> Distribution \<Rightarrow> tree \<Rightarrow> path \<times> tree" where
  "new_Distribution scope cid ps w0 =
     (let (distribution, w) = new_construct scope cid (DistributionC ps) w0
      in (distribution,
          case origin ps of
            S3Origin b \<Rightarrow>
              addToResourcePolicy b
                \<lparr>effect = ALLOW,
                 principals = [CanonicalUserPrincipal (S3CanonicalUserId distribution)],
                 actions = [''s3:GetObject''],
                 resources = [ArnForObjects b ''*''],
                 conditions = []\<rparr> w))"

definition setAttribute :: "path \<Rightarrow> string \<Rightarrow> string \<Rightarrow> tree \<Rightarrow> tree" where
  "setAttribute svc k v =
     modify svc (\<lambda>c. case c of
        ApplicationLoadBalancedFargateServiceC s \<Rightarrow>
          ApplicationLoadBalancedFargateServiceC
            (s\<lparr>targetGroupAttributes := targetGroupAttributes s @ [(k, v)]\<rparr>)
      | _ \<Rightarrow> c)"

definition createAlarm ::
  "Metric \<Rightarrow> path \<Rightarrow> string \<Rightarrow> CreateAlarmOptions \<Rightarrow> tree \<Rightarrow> path \<times> tree" where
  "createAlarm m scope cid opts =
     new_construct scope cid
       (AlarmC \<lparr>alarm_metric = m, alarm_options = opts, alarmActions = []\<rparr>)"

definition addAlarmAction :: "path \<Rightarrow> AlarmAction \<Rightarrow> tree \<Rightarrow> tree" where
  "addAlarmAction a act =
     modify a (\<lambda>c. case c of
        AlarmC s \<Rightarrow> AlarmC (s\<lparr>alarmActions := alarmActions s @ [act]\<rparr>)
      | _ \<Rightarrow> c)"

definition metricCpuUtilization :: "path \<Rightarrow> Duration \<Rightarrow> Statistic \<Rightarrow> Metric" where
  "metricCpuUtilization svc per st =
     \<lparr>metricSource = ServiceCpuUtilization svc, period = per, statistic = st\<rparr>"

definition new_Metric ::
  "string \<Rightarrow> string \<Rightarrow> (string \<times> tokstr) list \<Rightarrow> Duration \<Rightarrow> Statistic \<Rightarrow> Metric" where
  "new_Metric nm ns dims per st =
     \<lparr>metricSource = NamedMetric nm ns dims, period = per, statistic = st\<rparr>"

definition metricTargetResponseTime :: "path \<Rightarrow> Duration \<Rightarrow> Statistic \<Rightarrow> Metric" where
  "metricTargetResponseTime lb per st =
     \<lparr>metricSource = LbTargetResponseTime lb, period = per, statistic = st\<rparr>"

definition metricHttpCodeElb :: "path \<Rightarrow> HttpCodeElb \<Rightarrow> Duration \<Rightarrow> Statistic \<Rightarrow> Metric" where
  "metricHttpCodeElb lb code per st =
     \<lparr>metricSource = LbHttpCodeElb lb code, period = per, statistic = st\<rparr>"

definition metricHealthyHostCount :: "path \<Rightarrow> Duration \<Rightarrow> Statistic \<Rightarrow> Metric" where
  "metricHealthyHostCount tg per st =
     \<lparr>metricSource = TargetGroupHealthyHostCount tg, period = per, statistic = st\<rparr>"

section \<open>The stacks\<close>

text \<open>
  Every constructor starts with \<open>super(scope, id, props)\<close>: the stack itself is created
  under its scope with the \<open>cdk.StackProps\<close> part of the props, and its declared public
  field unassigned.

  The three props interfaces extend \<open>cdk.StackProps\<close> and declare the same fields
  cumulatively: \<open>prodVpc\<close> and \<open>environment\<close> (investigation stack), then \<open>logBucket\<close> and
  \<open>appKey\<close> (EC2 application stack), then \<open>alarmTopic\<close> (Fargate stack).
\<close>

record GcInvestigationInstanceStackProps = StackProps +
  prodVpc :: path
  environment :: string

record BsEc2appStackProps = GcInvestigationInstanceStackProps +
  logBucket :: path
  appKey :: path

record GcAlbFargateStackProps = BsEc2appStackProps +
  alarmTopic :: path

subsection \<open>lib/gc-alb-fargate-stack.ts\<close>

definition GcAlbFargateStack :: "path \<Rightarrow> string \<Rightarrow> GcAlbFargateStackProps \<Rightarrow> tree \<Rightarrow> tree" where
  "GcAlbFargateStack scope sid props w0 =
    (let
      (this, w) = new_construct scope sid
        (GcAlbFargateStackC
          \<lparr>app_stackProps = StackProps.truncate props, appServerSecurityGroup = None\<rparr>) w0;
      allowdOrigins = [''https://example.com'', ''https://www.example.com''];

      (securityGroupForAlb, w) = new_SecurityGroup this ''SgAlb''
        \<lparr>sg_vpc = prodVpc props, sg_allowAllOutbound = Some False\<rparr> w;
      w = addIngressRule securityGroupForAlb AnyIpv4 (Tcp 80) w;
      w = addEgressRule securityGroupForAlb AnyIpv4 AllTcp w;

      (webContentBucket, w) = new_Bucket this ''WebBucket''
        \<lparr>accessControl = Some PRIVATE,
         lifecycleRules =
           [\<lparr>enabled = True, expiration = Days 2555,
             transitions = [\<lparr>storageClass = GLACIER, transitionAfter = Days 90\<rparr>]\<rparr>],
         removalPolicy = Some DESTROY,
         versioned = Some False,
         encryptionKey = None,
         encryption = Some S3_MANAGED,
         cors = [\<lparr>allowedOrigins = allowdOrigins, allowedMethods = [GET, HEAD]\<rparr>],
         blockPublicAccess = Some BLOCK_ALL\<rparr> w;
      w = addToResourcePolicy webContentBucket
        \<lparr>effect = DENY,
         principals = [AnyPrincipal],
         actions = [''s3:*''],
         resources = [Concat (BucketArn webContentBucket) (Lit ''/*'')],
         conditions = [(''Bool'', [(''aws:SecureTransport'', ''false'')])]\<rparr> w;

      (distribution, w) = new_Distribution this ''Distribution''
        \<lparr>origin = S3Origin webContentBucket, originRequestPolicy = CORS_S3_ORIGIN\<rparr> w;

      (albLogBucket, w) = new_Bucket this ''alb-log-bucket''
        \<lparr>accessControl = Some PRIVATE,
         lifecycleRules = [],
         removalPolicy = None,
         versioned = None,
         encryptionKey = None,
         encryption = Some S3_MANAGED,
         cors = [],
         blockPublicAccess = Some BLOCK_ALL\<rparr> w;

      (lbForApp, w) = new_ApplicationLoadBalancer this ''Alb''
        \<lparr>alb_vpc = prodVpc props,
         internetFacing = True,
         alb_securityGroup = securityGroupForAlb,
         alb_vpcSubnets = selectSubnets (prodVpc props) ''Public''\<rparr> w;
      w = logAccessLogs lbForApp albLogBucket w;
      w = Tags_add lbForApp ''Environment'' (environment props) None w;

      (cluster, w) = new_construct this ''Cluster''
        (ClusterC \<lparr>cluster_vpc = prodVpc props, containerInsights = True\<rparr>) w;

      (albFargate, w) = new_construct this ''AlbFargate''
        (ApplicationLoadBalancedFargateServiceC
          \<lparr>fargate_props =
             \<lparr>fargate_cluster = cluster,
              fargate_loadBalancer = lbForApp,
              taskSubnets = selectSubnets (prodVpc props) ''Private'',
              taskImage = ContainerImage_fromRegistry ''amazon/amazon-ecs-sample''\<rparr>,
           targetGroupAttributes = []\<rparr>) w;
      w = setAttribute albFargate ''deregistration_delay.timeout_seconds'' ''30'' w;

      (a1, w) = createAlarm (metricCpuUtilization albFargate (Minutes 1) AVERAGE)
        this ''FargateCpuUtil''
        \<lparr>evaluationPeriods = 3, datapointsToAlarm = Some 3, threshold = 80,
         comparisonOperator = GREATER_THAN_OR_EQUAL_TO_THRESHOLD, actionsEnabled = True\<rparr> w;
      w = addAlarmAction a1 (SnsAction (alarmTopic props)) w;

      (a2, w) = createAlarm
        (new_Metric ''RunningTaskCount'' ''ECS/ContainerInsights''
          [(''ClusterName'', ClusterName cluster), (''ServiceName'', ServiceName albFargate)]
          (Minutes 1) AVERAGE)
        this ''RunningTaskCount''
        \<lparr>evaluationPeriods = 3, datapointsToAlarm = Some 2, threshold = 1,
         comparisonOperator = LESS_THAN_THRESHOLD, actionsEnabled = True\<rparr> w;
      w = addAlarmAction a2 (SnsAction (alarmTopic props)) w;

      (a3, w) = createAlarm (metricTargetResponseTime lbForApp (Minutes 1) AVERAGE)
        this ''AlbResponseTime''
        \<lparr>evaluationPeriods = 3, datapointsToAlarm = None, threshold = 100,
         comparisonOperator = GREATER_THAN_OR_EQUAL_TO_THRESHOLD, actionsEnabled = True\<rparr> w;
      w = addAlarmAction a3 (SnsAction (alarmTopic props)) w;

      (a4, w) = createAlarm (metricHttpCodeElb lbForApp ELB_4XX_COUNT (Minutes 1) SUM_statistic)
        this ''AlbHttp4xx''
        \<lparr>evaluationPeriods = 3, datapointsToAlarm = None, threshold = 10,
         comparisonOperator = GREATER_THAN_OR_EQUAL_TO_THRESHOLD, actionsEnabled = True\<rparr> w;
      w = addAlarmAction a4 (SnsAction (alarmTopic props)) w;

      (a5, w) = createAlarm (metricHttpCodeElb lbForApp ELB_5XX_COUNT (Minutes 1) SUM_statistic)
        this ''AlbHttp5xx''
        \<lparr>evaluationPeriods = 3, datapointsToAlarm = None, threshold = 10,
         comparisonOperator = GREATER_THAN_OR_EQUAL_TO_THRESHOLD, actionsEnabled = True\<rparr> w;
      w = addAlarmAction a5 (SnsAction (alarmTopic props)) w;

      (a6, w) = createAlarm (metricHealthyHostCount albFargate (Minutes 1) AVERAGE)
        this ''AlbTgHealthyHostCount''
        \<lparr>evaluationPeriods = 3, datapointsToAlarm = None, threshold = 2,
         comparisonOperator = LESS_THAN_THRESHOLD, actionsEnabled = True\<rparr> w;
      w = addAlarmAction a6 (SnsAction (alarmTopic props)) w;

      (webAcl, w) = new_construct this ''WebAcl''
        (CfnWebACLC
          \<lparr>defaultAction = Allow,
           acl_name = ''GcWebAcl'',
           acl_scope = ''REGIONAL'',
           acl_visibilityConfig =
             \<lparr>cloudWatchMetricsEnabled = True, metricName = ''GcWebAcl'',
              sampledRequestsEnabled = True\<rparr>,
           rules =
             [\<lparr>priority = 1,
               overrideAction = Count,
               rule_visibilityConfig =
                 \<lparr>cloudWatchMetricsEnabled = True,
                  metricName = ''AWS-AWSManagedRulesCommonRuleSet'',
                  sampledRequestsEnabled = True\<rparr>,
               rule_name = ''AWSManagedRulesCommonRuleSet'',
               statement = ManagedRuleGroupStatement
                 \<lparr>vendorName = ''AWS'', ruleGroupName = ''AWSManagedRulesCommonRuleSet''\<rparr>\<rparr>,
              \<lparr>priority = 2,
               overrideAction = Count,
               rule_visibilityConfig =
                 \<lparr>cloudWatchMetricsEnabled = True,
                  metricName = ''AWS-AWSManagedRulesKnownBadInputsRuleSet'',
                  sampledRequestsEnabled = True\<rparr>,
               rule_name = ''AWSManagedRulesKnownBadInputsRuleSet'',
               statement = ManagedRuleGroupStatement
                 \<lparr>vendorName = ''AWS'', ruleGroupName = ''AWSManagedRulesKnownBadInputsRuleSet''\<rparr>\<rparr>,
              \<lparr>priority = 3,
               overrideAction = Count,
               rule_visibilityConfig =
                 \<lparr>cloudWatchMetricsEnabled = True,
                  metricName = ''AWS-AWSManagedRulesAmazonIpReputationList'',
                  sampledRequestsEnabled = True\<rparr>,
               rule_name = ''AWSManagedRulesAmazonIpReputationList'',
               statement = ManagedRuleGroupStatement
                 \<lparr>vendorName = ''AWS'', ruleGroupName = ''AWSManagedRulesAmazonIpReputationList''\<rparr>\<rparr>,
              \<lparr>priority = 4,
               overrideAction = Count,
               rule_visibilityConfig =
                 \<lparr>cloudWatchMetricsEnabled = True,
                  metricName = ''AWS-AWSManagedRulesLinuxRuleSet'',
                  sampledRequestsEnabled = True\<rparr>,
               rule_name = ''AWSManagedRulesLinuxRuleSet'',
               statement = ManagedRuleGroupStatement
                 \<lparr>vendorName = ''AWS'', ruleGroupName = ''AWSManagedRulesLinuxRuleSet''\<rparr>\<rparr>,
              \<lparr>priority = 5,
               overrideAction = Count,
               rule_visibilityConfig =
                 \<lparr>cloudWatchMetricsEnabled = True,
                  metricName = ''AWS-AWSManagedRulesSQLiRuleSet'',
                  sampledRequestsEnabled = True\<rparr>,
               rule_name = ''AWSManagedRulesSQLiRuleSet'',
               statement = ManagedRuleGroupStatement
                 \<lparr>vendorName = ''AWS'', ruleGroupName = ''AWSManagedRulesSQLiRuleSet''\<rparr>\<rparr>]\<rparr>) w;

      (assoc, w) = new_construct this ''BsWebAclAssociation''
        (CfnWebACLAssociationC
          \<lparr>resourceArn = LoadBalancerArn lbForApp, webAclArn = AttrArn webAcl\<rparr>) w
    in w)"

subsection \<open>lib/bs-ec2app-stack.ts\<close>

text \<open>\<open>this.appServerSecurityGroup = sg\<close> in the constructor of \<open>BsEc2appStack\<close>.\<close>

definition assign_appServerSecurityGroup :: "path \<Rightarrow> path \<Rightarrow> tree \<Rightarrow> tree" where
  "assign_appServerSecurityGroup this sg =
     modify this (\<lambda>c. case c of
        BsEc2appStackC s \<Rightarrow> BsEc2appStackC (s\<lparr>appServerSecurityGroup := Some sg\<rparr>)
      | _ \<Rightarrow> c)"

definition BsEc2appStack :: "path \<Rightarrow> string \<Rightarrow> BsEc2appStackProps \<Rightarrow> tree \<Rightarrow> tree" where
  "BsEc2appStack scope sid props w0 =
    (let
      (this, w) = new_construct scope sid
        (BsEc2appStackC
          \<lparr>app_stackProps = StackProps.truncate props, appServerSecurityGroup = None\<rparr>) w0;

      (securityGroupForAlb, w) = new_SecurityGroup this ''security-group-for-alb''
        \<lparr>sg_vpc = prodVpc props, sg_allowAllOutbound = Some False\<rparr> w;
      w = addIngressRule securityGroupForAlb AnyIpv4 (Tcp 80) w;
      w = addEgressRule securityGroupForAlb AnyIpv4 AllTcp w;

      (securityGroupForApp, w) = new_SecurityGroup this ''security-group-for-app''
        \<lparr>sg_vpc = prodVpc props, sg_allowAllOutbound = Some False\<rparr> w;
      w = addIngressRule securityGroupForApp (SecurityGroupPeer securityGroupForAlb) (Tcp 80) w;
      w = addEgressRule securityGroupForApp AnyIpv4 AllTcp w;
      w = assign_appServerSecurityGroup this securityGroupForApp w;

      (webContentBucket, w) = new_Bucket this ''web-content-bucket''
        \<lparr>accessControl = Some PRIVATE,
         lifecycleRules =
           [\<lparr>enabled = True, expiration = Days 2555,
             transitions = [\<lparr>storageClass = GLACIER, transitionAfter = Days 90\<rparr>]\<rparr>],
         removalPolicy = Some DESTROY,
         versioned = Some False,
         encryptionKey = Some (appKey props),
         encryption = Some KMS,
         cors = [],
         blockPublicAccess = None\<rparr> w;
      w = addToResourcePolicy webContentBucket
        \<lparr>effect = DENY,
         principals = [AnyPrincipal],
         actions = [''s3:*''],
         resources = [BucketArn webContentBucket],
         conditions = [(''Bool'', [(''aws:SecureTransport'', ''false'')])]\<rparr> w;
      w = addToResourcePolicy webContentBucket
        \<lparr>effect = DENY,
         principals = [AnyPrincipal],
         actions = [''s3:PutObject''],
         resources = [ArnForObjects webContentBucket ''*''],
         conditions =
           [(''StringNotEquals'', [(''s3:x-amz-server-side-encryption'', ''AES256'')])]\<rparr> w;

      (ssmInstanceRole, w) = new_construct this ''ssm-instance-role''
        (RoleC
          \<lparr>assumedBy = ServicePrincipal ''ec2.amazonaws.com'',
           role_path = ''/'',
           managedPolicies =
             [''arn:aws:iam::aws:policy/AmazonSSMManagedInstanceCore'',
              ''arn:aws:iam::aws:policy/CloudWatchAgentServerPolicy'']\<rparr>) w;

      userDataForApp = UserData_forLinux ''#!/bin/bash'';
      userDataForApp = addCommands
        [''sudo yum -y install httpd'',
         ''sudo systemctl enable httpd'',
         ''sudo systemctl start httpd'',
         ''touch /var/www/html/index.html'',
         ''chown apache.apache /var/www/html/index.html''] userDataForApp;

      (fleetForApp, w) = new_AutoScalingGroup this ''auto-scaling-group-app''
        \<lparr>minCapacity = 2,
         maxCapacity = 4,
         asg_vpc = prodVpc props,
         asg_vpcSubnets = selectSubnets (prodVpc props) ''ProdPrivateSubnet'',
         asg_instanceType = InstanceType_of T3 MICRO,
         asg_machineImage = AmazonLinuxImage AMAZON_LINUX_2,
         asg_securityGroup = securityGroupForApp,
         asg_role = ssmInstanceRole,
         asg_userData = userDataForApp,
         asg_healthCheck = HealthCheck_elb (Seconds 60)\<rparr> w;
      w = scaleOnCpuUtilization fleetForApp ''keepSpareCPU'' \<lparr>targetUtilizationPercent = 50\<rparr> w;
      w = Tags_add fleetForApp ''Environment'' (environment props) (Some True) w;
      w = Tags_add fleetForApp ''Name'' ''AppServer'' (Some True) w;
      w = Tags_add fleetForApp ''Role'' ''FRA_AppServer'' (Some True) w;

      (albLogBucket, w) = new_Bucket this ''alb-log-bucket''
        \<lparr>accessControl = Some PRIVATE,
         lifecycleRules = [],
         removalPolicy = None,
         versioned = None,
         encryptionKey = None,
         encryption = Some S3_MANAGED,
         cors = [],
         blockPublicAccess = Some BLOCK_ALL\<rparr> w;

      (lbForApp, w) = new_ApplicationLoadBalancer this ''alb-for-app''
        \<lparr>alb_vpc = prodVpc props,
         internetFacing = True,
         alb_securityGroup = securityGroupForAlb,
         alb_vpcSubnets = selectSubnets (prodVpc props) ''ProdPublicSubnet''\<rparr> w;
      w = logAccessLogs lbForApp albLogBucket w;
      w = Tags_add lbForApp ''Environment'' (environment props) None w;

      (tgForApp, w) = new_ApplicationTargetGroup this ''tg-for-app''
        \<lparr>tg_vpc = prodVpc props,
         tg_port = 80,
         tg_protocol = HTTP,
         targetType = INSTANCE,
         tg_healthCheck = \<lparr>hc_enabled = True, hc_path = ''/index.html''\<rparr>,
         deregistrationDelay = Seconds 60\<rparr> w;
      w = Tags_add tgForApp ''Environment'' (environment props) None w;

      w = addListener lbForApp ''alb-listener-for-app''
        \<lparr>listener_port = 80, listener_open = True, defaultTargetGroups = [tgForApp]\<rparr> w;

      w = attachToApplicationTargetGroup fleetForApp tgForApp w
    in w)"

subsection \<open>lib/gc-investigation-instance-stack.ts\<close>

definition GcInvestigationInstanceStack ::
  "path \<Rightarrow> string \<Rightarrow> GcInvestigationInstanceStackProps \<Rightarrow> tree \<Rightarrow> tree" where
  "GcInvestigationInstanceStack scope sid props w0 =
    (let
      (this, w) = new_construct scope sid
        (GcInvestigationInstanceStackC
          \<lparr>inv_stackProps = StackProps.truncate props,
           InvestigationInstanceSecurityGroup = None\<rparr>) w0;

      (securityGroupForEc2, w) = new_SecurityGroup this ''SgEC2''
        \<lparr>sg_vpc = prodVpc props, sg_allowAllOutbound = None\<rparr> w;

      (ssmInstanceRole, w) = new_construct this ''ssm-instance-role''
        (RoleC
          \<lparr>assumedBy = ServicePrincipal ''ec2.amazonaws.com'',
           role_path = ''/'',
           managedPolicies =
             [''arn:aws:iam::aws:policy/AmazonSSMManagedInstanceCore'',
              ''arn:aws:iam::aws:policy/CloudWatchAgentServerPolicy'']\<rparr>) w;

      userData = UserData_forLinux ''#!/bin/bash'';
      userData = addCommands [''sudo yum -y install mariadb''] userData;

      (instance, w) = new_construct this ''Investigation''
        (InstanceC
          \<lparr>inst_vpc = prodVpc props,
           inst_vpcSubnets = selectSubnets (prodVpc props) ''Protected'',
           inst_instanceType = InstanceType_of T3 MICRO,
           inst_machineImage = AmazonLinuxImage AMAZON_LINUX_2,
           inst_securityGroup = securityGroupForEc2,
           inst_role = ssmInstanceRole,
           inst_userData = userData\<rparr>) w;

      w = Tags_add instance ''Environment'' (environment props) None w;
      w = Tags_add instance ''Name'' ''Investigation'' None w
    in w)"

section \<open>The application entry file\<close>

text \<open>
  The entry file instantiates three stacks whose classes, like the parameter file, live
  elsewhere.  The classes are parameters of the model: each takes a scope, an id and its
  props and yields the instance with the fields it exposes.  The values of those fields are
  of a type \<open>'v\<close> that the entry file never inspects.
\<close>

record DevParameter =
  envName :: string
  monitoringNotifyEmail :: string
  monitoringSlackWorkspaceId :: string
  monitoringSlackChannelId :: string
  vpcCidr :: string
  hostedZoneId :: string
  domainName :: string
  albHostName :: string
  cloudFrontHostName :: string
  dashboardName :: string

record BLEAEcsAppSampleStackProps = StackProps +
  ecsapp_monitoringNotifyEmail :: string
  ecsapp_monitoringSlackWorkspaceId :: string
  ecsapp_monitoringSlackChannelId :: string
  ecsapp_vpcCidr :: string
  ecsapp_hostedZoneId :: string
  ecsapp_domainName :: string
  ecsapp_albHostName :: string

record 'v BLEAEcsAppSampleStack =
  stack_alarmTopic :: 'v
  stack_albFullName :: 'v
  stack_albTargetGroupName :: 'v
  stack_albTargetGroupUnhealthyHostCountAlarm :: 'v
  stack_ecsClusterName :: 'v
  stack_ecsServiceName :: 'v
  stack_ecsScaleOnRequestCount :: 'v
  stack_ecsTargetUtilizationPercent :: 'v
  stack_dbClusterName :: 'v

record 'v BLEAEcsFrontendSampleStackProps = StackProps +
  frontend_hostedZoneId :: string
  frontend_domainName :: string
  frontend_albHostName :: string
  frontend_cloudFrontHostName :: string
  frontend_alarmTopic :: 'v

record 'v BLEAEcsFrontendSampleStack =
  stack_distributionId :: 'v

record 'v BLEAEcsAppMonitoringSampleStackProps = StackProps +
  appEndpoint :: string
  monitoring_dashboardName :: string
  monitoring_alarmTopic :: 'v
  albFullName :: 'v
  albTargetGroupName :: 'v
  albTargetGroupUnhealthyHostCountAlarm :: 'v
  ecsClusterName :: 'v
  ecsServiceName :: 'v
  ecsScaleOnRequestCount :: 'v
  ecsTargetUtilizationPercent :: 'v
  dbClusterName :: 'v
  distributionId :: 'v

text \<open>What the entry file instantiated: each stack with the props it was given.\<close>

record ('v, 'm) Instantiated =
  ecsappProps :: BLEAEcsAppSampleStackProps
  ecsapp :: "'v BLEAEcsAppSampleStack"
  frontendProps :: "'v BLEAEcsFrontendSampleStackProps"
  frontend :: "'v BLEAEcsFrontendSampleStack"
  monitoringProps :: "'v BLEAEcsAppMonitoringSampleStackProps"
  monitoring :: 'm

definition entry ::
  "DevParameter \<Rightarrow> (string \<Rightarrow> string option) \<Rightarrow>
   (path \<Rightarrow> string \<Rightarrow> BLEAEcsAppSampleStackProps \<Rightarrow> 'v BLEAEcsAppSampleStack) \<Rightarrow>
   (path \<Rightarrow> string \<Rightarrow> 'v BLEAEcsFrontendSampleStackProps \<Rightarrow> 'v BLEAEcsFrontendSampleStack) \<Rightarrow>
   (path \<Rightarrow> string \<Rightarrow> 'v BLEAEcsAppMonitoringSampleStackProps \<Rightarrow> 'm) \<Rightarrow>
   ('v, 'm) Instantiated" where
  "entry devParameter process_env new_BLEAEcsAppSampleStack new_BLEAEcsFrontendSampleStack
     new_BLEAEcsAppMonitoringSampleStack =
    (let
      app = [];

      ecsappProps =
        \<lparr>description = None,
         env = Some \<lparr>account = process_env ''CDK_DEFAULT_ACCOUNT'',
                     region = process_env ''CDK_DEFAULT_REGION''\<rparr>,
         stackName = None,
         tags = [(''Repository'', ''aws-samples/baseline-environment-on-aws''),
                 (''Environment'', envName devParameter)],
         terminationProtection = None,
         crossRegionReferences = Some True,
         ecsapp_monitoringNotifyEmail = monitoringNotifyEmail devParameter,
         ecsapp_monitoringSlackWorkspaceId = monitoringSlackWorkspaceId devParameter,
         ecsapp_monitoringSlackChannelId = monitoringSlackChannelId devParameter,
         ecsapp_vpcCidr = vpcCidr devParameter,
         ecsapp_hostedZoneId = hostedZoneId devParameter,
         ecsapp_domainName = domainName devParameter,
         ecsapp_albHostName = albHostName devParameter\<rparr>;
      ecsapp = new_BLEAEcsAppSampleStack app ''BLEAEcsAppSampleDev'' ecsappProps;

      frontendProps =
        \<lparr>description = None,
         env = Some \<lparr>account = process_env ''CDK_DEFAULT_ACCOUNT'',
                     region = Some ''us-east-1''\<rparr>,
         stackName = None,
         tags = [],
         terminationProtection = None,
         crossRegionReferences = Some True,
         frontend_hostedZoneId = hostedZoneId devParameter,
         frontend_domainName = domainName devParameter,
         frontend_albHostName = albHostName devParameter,
         frontend_cloudFrontHostName = cloudFrontHostName devParameter,
         frontend_alarmTopic = stack_alarmTopic ecsapp\<rparr>;
      frontend = new_BLEAEcsFrontendSampleStack app ''BLEAEcsFrontendSampleDev'' frontendProps;

      monitoringProps =
        \<lparr>description = None,
         env = Some \<lparr>account = process_env ''CDK_DEFAULT_ACCOUNT'',
                     region = process_env ''CDK_DEFAULT_REGION''\<rparr>,
         stackName = None,
         tags = [],
         terminationProtection = None,
         crossRegionReferences = Some True,
         appEndpoint = cloudFrontHostName devParameter @ ''.'' @ domainName devParameter,
         monitoring_dashboardName = dashboardName devParameter,
         monitoring_alarmTopic = stack_alarmTopic ecsapp,
         albFullName = stack_albFullName ecsapp,
         albTargetGroupName = stack_albTargetGroupName ecsapp,
         albTargetGroupUnhealthyHostCountAlarm =
           stack_albTargetGroupUnhealthyHostCountAlarm ecsapp,
         ecsClusterName = stack_ecsClusterName ecsapp,
         ecsServiceName = stack_ecsServiceName ecsapp,
         ecsScaleOnRequestCount = stack_ecsScaleOnRequestCount ecsapp,
         ecsTargetUtilizationPercent = stack_ecsTargetUtilizationPercent ecsapp,
         dbClusterName = stack_dbClusterName ecsapp,
         distributionId = stack_distributionId frontend\<rparr>;
      monitoring =
        new_BLEAEcsAppMonitoringSampleStack app ''BLEAEcsMonitoringSampleDev'' monitoringProps
    in
      \<lparr>ecsappProps = ecsappProps, ecsapp = ecsapp,
       frontendProps = frontendProps, frontend = frontend,
       monitoringProps = monitoringProps, monitoring = monitoring\<rparr>)"

section \<open>Statements and classes\<close>

text \<open>
  The statement both stacks put on their web content bucket under the comment
  \<open>Prevent access without SSL\<close>: it denies every S3 action when \<open>aws:SecureTransport\<close> is
  false.
\<close>

definition deniesWithoutSSL :: "PolicyStatement \<Rightarrow> bool" where
  "deniesWithoutSSL st =
     (effect st = DENY \<and> actions st = [''s3:*'']
      \<and> conditions st = [(''Bool'', [(''aws:SecureTransport'', ''false'')])])"

text \<open>The class of a construct, and the classes found in a tree.\<close>

fun kindOf :: "construct \<Rightarrow> string" where
  "kindOf (BsEc2appStackC _) = ''BsEc2appStack''"
| "kindOf (GcAlbFargateStackC _) = ''GcAlbFargateStack''"
| "kindOf (GcInvestigationInstanceStackC _) = ''GcInvestigationInstanceStack''"
| "kindOf (SecurityGroupC _) = ''ec2.SecurityGroup''"
| "kindOf (BucketC _) = ''s3.Bucket''"
| "kindOf (RoleC _) = ''iam.Role''"
| "kindOf (InstanceC _) = ''ec2.Instance''"
| "kindOf (AutoScalingGroupC _) = ''autoscaling.AutoScalingGroup''"
| "kindOf (ScalingPolicyC _) = ''autoscaling.TargetTrackingScalingPolicy''"
| "kindOf (ApplicationLoadBalancerC _) = ''elbv2.ApplicationLoadBalancer''"
| "kindOf (ApplicationTargetGroupC _) = ''elbv2.ApplicationTargetGroup''"
| "kindOf (ApplicationListenerC _) = ''elbv2.ApplicationListener''"
| "kindOf (DistributionC _) = ''cloudfront.Distribution''"
| "kindOf (ClusterC _) = ''ecs.Cluster''"
| "kindOf (ApplicationLoadBalancedFargateServiceC _) =
     ''ecs_patterns.ApplicationLoadBalancedFargateService''"
| "kindOf (AlarmC _) = ''cloudwatch.Alarm''"
| "kindOf (CfnWebACLC _) = ''wafv2.CfnWebACL''"
| "kindOf (CfnWebACLAssociationC _) = ''wafv2.CfnWebACLAssociation''"
| "kindOf VpcC = ''ec2.Vpc''"
| "kindOf KeyC = ''kms.Key''"
| "kindOf TopicC = ''sns.Topic''"

definition kinds :: "tree \<Rightarrow> path \<rightharpoonup> string" where
  "kinds w x = map_option kindOf (constructAt w x)"

section \<open>The trees the constructors build\<close>

text \<open>
  A constructor takes the tree it finds and returns the tree it leaves.  Methods act on
  the construct behind a handle, wherever it was stored.
\<close>

lemma modify_upd:
  "modify r f (w(r' \<mapsto> n)) =
     (if r = r' then w(r' \<mapsto> n\<lparr>construct := f (construct n)\<rparr>) else (modify r f w)(r' \<mapsto> n))"
  by (auto simp: modify_def fun_upd_twist split: option.splits)

lemma Tags_add_upd:
  "Tags_add r k v l (w(r' \<mapsto> n)) =
     (if r = r' then w(r' \<mapsto> n\<lparr>appliedTags := appliedTags n @
           [\<lparr>tag_key = k, tag_value = v, applyToLaunchedInstances = l\<rparr>]\<rparr>)
      else (Tags_add r k v l w)(r' \<mapsto> n))"
  by (auto simp: Tags_add_def fun_upd_twist split: option.splits)

lemma constructAt_upd:
  "constructAt (w(r' \<mapsto> n)) r = (if r = r' then Some (construct n) else constructAt w r)"
  by (simp add: constructAt_def)

lemmas steps = new_construct_def new_SecurityGroup_def addIngressRule_def
  addEgressRule_def new_Bucket_def addToResourcePolicy_def new_AutoScalingGroup_def
  scaleOnCpuUtilization_def attachToApplicationTargetGroup_def new_ApplicationLoadBalancer_def
  logAccessLogs_def addListener_def setAttribute_def createAlarm_def addAlarmAction_def
  assign_appServerSecurityGroup_def securityGroupOf_def allowFrom_def
  new_ApplicationTargetGroup_def registerListener_def new_Distribution_def
  modify_upd Tags_add_upd constructAt_upd butlast_append
  securityGroupAt_def bucketAt_def autoScalingGroupAt_def
  loadBalancerAt_def targetGroupAt_def listenerAt_def alarmAt_def webAclAt_def

lemmas readers = constructAt_def securityGroupAt_def bucketAt_def autoScalingGroupAt_def
  loadBalancerAt_def targetGroupAt_def listenerAt_def alarmAt_def webAclAt_def

text \<open>
  Run step by step, each constructor leaves the tree it found with the constructs of the
  new stack added.
\<close>

lemma BsEc2appStack_tree:
  "BsEc2appStack scope sid props w =
    w(scope @ [sid] \<mapsto>
        \<lparr>construct =
           BsEc2appStackC
            \<lparr>app_stackProps = StackProps.truncate props,
               appServerSecurityGroup =
                 Some (scope @ [sid, ''security-group-for-app''])\<rparr>,
           appliedTags = []\<rparr>,
        scope @ [sid, ''security-group-for-alb''] \<mapsto>
        \<lparr>construct =
           SecurityGroupC
            \<lparr>sg_props =
               \<lparr>sg_vpc = prodVpc props, sg_allowAllOutbound = Some False\<rparr>,
               ingressRules = [(AnyIpv4, Tcp 80)],
               egressRules =
                 [(AnyIpv4, AllTcp),
                  (SecurityGroupPeer
                    (scope @ [sid, ''security-group-for-app'']),
                   Tcp 80)]\<rparr>,
           appliedTags = []\<rparr>,
        scope @ [sid, ''security-group-for-app''] \<mapsto>
        \<lparr>construct =
           SecurityGroupC
            \<lparr>sg_props =
               \<lparr>sg_vpc = prodVpc props, sg_allowAllOutbound = Some False\<rparr>,
               ingressRules =
                 [(SecurityGroupPeer
                    (scope @ [sid, ''security-group-for-alb'']),
                   Tcp 80)],
               egressRules = [(AnyIpv4, AllTcp)]\<rparr>,
           appliedTags = []\<rparr>,
        scope @ [sid, ''web-content-bucket''] \<mapsto>
        \<lparr>construct =
           BucketC
            \<lparr>bucket_props =
               \<lparr>accessControl = Some PRIVATE,
                  lifecycleRules =
                    [\<lparr>enabled = True, expiration = Days 2555,
                        transitions =
                          [\<lparr>storageClass = GLACIER,
                              transitionAfter = Days 90\<rparr>]\<rparr>],
                  removalPolicy = Some DESTROY, versioned = Some False,
                  encryptionKey = Some (appKey props),
                  encryption = Some KMS, cors = [],
                  blockPublicAccess = None\<rparr>,
               resourcePolicy =
                 [\<lparr>effect = DENY, principals = [AnyPrincipal],
                     actions = [''s3:*''],
                     resources =
                       [BucketArn (scope @ [sid, ''web-content-bucket''])],
                     conditions =
                       [(''Bool'',
                         [(''aws:SecureTransport'', ''false'')])]\<rparr>,
                  \<lparr>effect = DENY, principals = [AnyPrincipal],
                     actions = [''s3:PutObject''],
                     resources =
                       [ArnForObjects
                         (scope @ [sid, ''web-content-bucket'']) ''*''],
                     conditions =
                       [(''StringNotEquals'',
                         [(''s3:x-amz-server-side-encryption'',
                           ''AES256'')])]\<rparr>]\<rparr>,
           appliedTags = []\<rparr>,
        scope @ [sid, ''ssm-instance-role''] \<mapsto>
        \<lparr>construct =
           RoleC
            \<lparr>assumedBy = ServicePrincipal ''ec2.amazonaws.com'',
               role_path = ''/'',
               managedPolicies =
                 [''arn:aws:iam::aws:policy/AmazonSSMManagedInstanceCore'',
                  ''arn:aws:iam::aws:policy/CloudWatchAgentServerPolicy'']\<rparr>,
           appliedTags = []\<rparr>,
        scope @ [sid, ''auto-scaling-group-app''] \<mapsto>
        \<lparr>construct =
           AutoScalingGroupC
            \<lparr>asg_props =
               \<lparr>minCapacity = 2, maxCapacity = 4, asg_vpc = prodVpc props,
                  asg_vpcSubnets =
                    \<lparr>sel_vpc = prodVpc props,
                       subnetGroupName = ''ProdPrivateSubnet''\<rparr>,
                  asg_instanceType = InstanceType_of T3 MICRO,
                  asg_machineImage = AmazonLinuxImage AMAZON_LINUX_2,
                  asg_securityGroup =
                    scope @ [sid, ''security-group-for-app''],
                  asg_role = scope @ [sid, ''ssm-instance-role''],
                  asg_userData =
                    \<lparr>shebang = ''#!/bin/bash'',
                       commands =
                         [''sudo yum -y install httpd'',
                          ''sudo systemctl enable httpd'',
                          ''sudo systemctl start httpd'',
                          ''touch /var/www/html/index.html'',
                          ''chown apache.apache /var/www/html/index.html'']\<rparr>,
                  asg_healthCheck = HealthCheck_elb (Seconds 60)\<rparr>,
               attachedTargetGroups = [scope @ [sid, ''tg-for-app'']]\<rparr>,
           appliedTags =
             [\<lparr>tag_key = ''Environment'', tag_value = environment props,
                 applyToLaunchedInstances = Some True\<rparr>,
              \<lparr>tag_key = ''Name'', tag_value = ''AppServer'',
                 applyToLaunchedInstances = Some True\<rparr>,
              \<lparr>tag_key = ''Role'', tag_value = ''FRA_AppServer'',
                 applyToLaunchedInstances = Some True\<rparr>]\<rparr>,
        scope @
        [sid, ''auto-scaling-group-app'', ''ScalingPolicykeepSpareCPU''] 
        \<mapsto> \<lparr>construct = ScalingPolicyC \<lparr>targetUtilizationPercent = 50\<rparr>,
             appliedTags = []\<rparr>,
        scope @ [sid, ''alb-log-bucket''] \<mapsto>
        \<lparr>construct =
           BucketC
            \<lparr>bucket_props =
               \<lparr>accessControl = Some PRIVATE, lifecycleRules = [],
                  removalPolicy = None, versioned = None,
                  encryptionKey = None, encryption = Some S3_MANAGED,
                  cors = [], blockPublicAccess = Some BLOCK_ALL\<rparr>,
               resourcePolicy =
                 [\<lparr>effect = ALLOW,
                     principals =
                       [AccountPrincipal
                         (ElbAccountId (scope @ [sid, ''alb-for-app'']))],
                     actions = [''s3:PutObject*'', ''s3:Abort*''],
                     resources =
                       [Concat
                         (BucketArn (scope @ [sid, ''alb-log-bucket'']))
                         (Concat (Lit ''/AWSLogs/'')
                           (Concat
                             (AccountId (scope @ [sid, ''alb-for-app'']))
                             (Lit ''/*'')))],
                     conditions = []\<rparr>,
                  \<lparr>effect = ALLOW,
                     principals =
                       [ServicePrincipal ''delivery.logs.amazonaws.com''],
                     actions = [''s3:PutObject''],
                     resources =
                       [Concat
                         (BucketArn (scope @ [sid, ''alb-log-bucket'']))
                         (Concat (Lit ''/AWSLogs/'')
                           (Concat
                             (AccountId (scope @ [sid, ''alb-for-app'']))
                             (Lit ''/*'')))],
                     conditions =
                       [(''StringEquals'',
                         [(''s3:x-amz-acl'',
                           ''bucket-owner-full-control'')])]\<rparr>,
                  \<lparr>effect = ALLOW,
                     principals =
                       [ServicePrincipal ''delivery.logs.amazonaws.com''],
                     actions = [''s3:GetBucketAcl''],
                     resources =
                       [BucketArn (scope @ [sid, ''alb-log-bucket''])],
                     conditions = []\<rparr>]\<rparr>,
           appliedTags = []\<rparr>,
        scope @ [sid, ''alb-for-app''] \<mapsto>
        \<lparr>construct =
           ApplicationLoadBalancerC
            \<lparr>alb_props =
               \<lparr>alb_vpc = prodVpc props, internetFacing = True,
                  alb_securityGroup =
                    scope @ [sid, ''security-group-for-alb''],
                  alb_vpcSubnets =
                    \<lparr>sel_vpc = prodVpc props,
                       subnetGroupName = ''ProdPublicSubnet''\<rparr>\<rparr>,
               accessLogsBucket = Some (scope @ [sid, ''alb-log-bucket''])\<rparr>,
           appliedTags =
             [\<lparr>tag_key = ''Environment'', tag_value = environment props,
                 applyToLaunchedInstances = None\<rparr>]\<rparr>,
        scope @ [sid, ''tg-for-app''] \<mapsto>
        \<lparr>construct =
           ApplicationTargetGroupC
            \<lparr>tg_props =
               \<lparr>tg_vpc = prodVpc props, tg_port = 80, tg_protocol = HTTP,
                  targetType = INSTANCE,
                  tg_healthCheck =
                    \<lparr>hc_enabled = True, hc_path = ''/index.html''\<rparr>,
                  deregistrationDelay = Seconds 60\<rparr>,
               tg_listeners =
                 [scope @ [sid, ''alb-for-app'', ''alb-listener-for-app'']],
               tg_members = [scope @ [sid, ''auto-scaling-group-app'']]\<rparr>,
           appliedTags =
             [\<lparr>tag_key = ''Environment'', tag_value = environment props,
                 applyToLaunchedInstances = None\<rparr>]\<rparr>,
        scope @ [sid, ''alb-for-app'', ''alb-listener-for-app''] \<mapsto>
        \<lparr>construct =
           ApplicationListenerC
            \<lparr>listener_port = 80, listener_open = True,
               defaultTargetGroups = [scope @ [sid, ''tg-for-app'']]\<rparr>,
           appliedTags = []\<rparr>)"
  by (simp add: BsEc2appStack_def Let_def steps UserData_forLinux_def addCommands_def
      selectSubnets_def metricCpuUtilization_def new_Metric_def metricTargetResponseTime_def
      metricHttpCodeElb_def metricHealthyHostCount_def)

lemma GcAlbFargateStack_tree:
  "GcAlbFargateStack scope sid props w =
    w(scope @ [sid] \<mapsto>
        \<lparr>construct =
           GcAlbFargateStackC
            \<lparr>app_stackProps = StackProps.truncate props,
               appServerSecurityGroup = None\<rparr>,
           appliedTags = []\<rparr>,
        scope @ [sid, ''SgAlb''] \<mapsto>
        \<lparr>construct =
           SecurityGroupC
            \<lparr>sg_props =
               \<lparr>sg_vpc = prodVpc props, sg_allowAllOutbound = Some False\<rparr>,
               ingressRules = [(AnyIpv4, Tcp 80)],
               egressRules = [(AnyIpv4, AllTcp)]\<rparr>,
           appliedTags = []\<rparr>,
        scope @ [sid, ''WebBucket''] \<mapsto>
        \<lparr>construct =
           BucketC
            \<lparr>bucket_props =
               \<lparr>accessControl = Some PRIVATE,
                  lifecycleRules =
                    [\<lparr>enabled = True, expiration = Days 2555,
                        transitions =
                          [\<lparr>storageClass = GLACIER,
                              transitionAfter = Days 90\<rparr>]\<rparr>],
                  removalPolicy = Some DESTROY, versioned = Some False,
                  encryptionKey = None, encryption = Some S3_MANAGED,
                  cors =
                    [\<lparr>allowedOrigins =
                        [''https://example.com'',
                         ''https://www.example.com''],
                        allowedMethods = [GET, HEAD]\<rparr>],
                  blockPublicAccess = Some BLOCK_ALL\<rparr>,
               resourcePolicy =
                 [\<lparr>effect = DENY, principals = [AnyPrincipal],
                     actions = [''s3:*''],
                     resources =
                       [Concat (BucketArn (scope @ [sid, ''WebBucket'']))
                         (Lit ''/*'')],
                     conditions =
                       [(''Bool'',
                         [(''aws:SecureTransport'', ''false'')])]\<rparr>,
                  \<lparr>effect = ALLOW,
                     principals =
                       [CanonicalUserPrincipal
                         (S3CanonicalUserId
                           (scope @ [sid, ''Distribution'']))],
                     actions = [''s3:GetObject''],
                     resources =
                       [ArnForObjects (scope @ [sid, ''WebBucket'']) ''*''],
                     conditions = []\<rparr>]\<rparr>,
           appliedTags = []\<rparr>,
        scope @ [sid, ''Distribution''] \<mapsto>
        \<lparr>construct =
           DistributionC
            \<lparr>origin = S3Origin (scope @ [sid, ''WebBucket'']),
               originRequestPolicy = CORS_S3_ORIGIN\<rparr>,
           appliedTags = []\<rparr>,
        scope @ [sid, ''alb-log-bucket''] \<mapsto>
        \<lparr>construct =
           BucketC
            \<lparr>bucket_props =
               \<lparr>accessControl = Some PRIVATE, lifecycleRules = [],
                  removalPolicy = None, versioned = None,
                  encryptionKey = None, encryption = Some S3_MANAGED,
                  cors = [], blockPublicAccess = Some BLOCK_ALL\<rparr>,
               resourcePolicy =
                 [\<lparr>effect = ALLOW,
                     principals =
                       [AccountPrincipal
                         (ElbAccountId (scope @ [sid, ''Alb'']))],
                     actions = [''s3:PutObject*'', ''s3:Abort*''],
                     resources =
                       [Concat
                         (BucketArn (scope @ [sid, ''alb-log-bucket'']))
                         (Concat (Lit ''/AWSLogs/'')
                           (Concat (AccountId (scope @ [sid, ''Alb'']))
                             (Lit ''/*'')))],
                     conditions = []\<rparr>,
                  \<lparr>effect = ALLOW,
                     principals =
                       [ServicePrincipal ''delivery.logs.amazonaws.com''],
                     actions = [''s3:PutObject''],
                     resources =
                       [Concat
                         (BucketArn (scope @ [sid, ''alb-log-bucket'']))
                         (Concat (Lit ''/AWSLogs/'')
                           (Concat (AccountId (scope @ [sid, ''Alb'']))
                             (Lit ''/*'')))],
                     conditions =
                       [(''StringEquals'',
                         [(''s3:x-amz-acl'',
                           ''bucket-owner-full-control'')])]\<rparr>,
                  \<lparr>effect = ALLOW,
                     principals =
                       [ServicePrincipal ''delivery.logs.amazonaws.com''],
                     actions = [''s3:GetBucketAcl''],
                     resources =
                       [BucketArn (scope @ [sid, ''alb-log-bucket''])],
                     conditions = []\<rparr>]\<rparr>,
           appliedTags = []\<rparr>,
        scope @ [sid, ''Alb''] \<mapsto>
        \<lparr>construct =
           ApplicationLoadBalancerC
            \<lparr>alb_props =
               \<lparr>alb_vpc = prodVpc props, internetFacing = True,
                  alb_securityGroup = scope @ [sid, ''SgAlb''],
                  alb_vpcSubnets =
                    \<lparr>sel_vpc = prodVpc props,
                       subnetGroupName = ''Public''\<rparr>\<rparr>,
               accessLogsBucket = Some (scope @ [sid, ''alb-log-bucket''])\<rparr>,
           appliedTags =
             [\<lparr>tag_key = ''Environment'', tag_value = environment props,
                 applyToLaunchedInstances = None\<rparr>]\<rparr>,
        scope @ [sid, ''Cluster''] \<mapsto>
        \<lparr>construct =
           ClusterC \<lparr>cluster_vpc = prodVpc props, containerInsights = True\<rparr>,
           appliedTags = []\<rparr>,
        scope @ [sid, ''AlbFargate''] \<mapsto>
        \<lparr>construct =
           ApplicationLoadBalancedFargateServiceC
            \<lparr>fargate_props =
               \<lparr>fargate_cluster = scope @ [sid, ''Cluster''],
                  fargate_loadBalancer = scope @ [sid, ''Alb''],
                  taskSubnets =
                    \<lparr>sel_vpc = prodVpc props,
                       subnetGroupName = ''Private''\<rparr>,
                  taskImage =
                    ContainerImage_fromRegistry
                     ''amazon/amazon-ecs-sample''\<rparr>,
               targetGroupAttributes =
                 [(''deregistration_delay.timeout_seconds'', ''30'')]\<rparr>,
           appliedTags = []\<rparr>,
        scope @ [sid, ''FargateCpuUtil''] \<mapsto>
        \<lparr>construct =
           AlarmC
            \<lparr>alarm_metric =
               \<lparr>metricSource =
                  ServiceCpuUtilization (scope @ [sid, ''AlbFargate'']),
                  period = Minutes (Suc 0), statistic = AVERAGE\<rparr>,
               alarm_options =
                 \<lparr>evaluationPeriods = 3, datapointsToAlarm = Some 3,
                    threshold = 80,
                    comparisonOperator = GREATER_THAN_OR_EQUAL_TO_THRESHOLD,
                    actionsEnabled = True\<rparr>,
               alarmActions = [SnsAction (alarmTopic props)]\<rparr>,
           appliedTags = []\<rparr>,
        scope @ [sid, ''RunningTaskCount''] \<mapsto>
        \<lparr>construct =
           AlarmC
            \<lparr>alarm_metric =
               \<lparr>metricSource =
                  NamedMetric ''RunningTaskCount'' ''ECS/ContainerInsights''
                   [(''ClusterName'',
                     ClusterName (scope @ [sid, ''Cluster''])),
                    (''ServiceName'',
                     ServiceName (scope @ [sid, ''AlbFargate'']))],
                  period = Minutes (Suc 0), statistic = AVERAGE\<rparr>,
               alarm_options =
                 \<lparr>evaluationPeriods = 3, datapointsToAlarm = Some 2,
                    threshold = 1, comparisonOperator = LESS_THAN_THRESHOLD,
                    actionsEnabled = True\<rparr>,
               alarmActions = [SnsAction (alarmTopic props)]\<rparr>,
           appliedTags = []\<rparr>,
        scope @ [sid, ''AlbResponseTime''] \<mapsto>
        \<lparr>construct =
           AlarmC
            \<lparr>alarm_metric =
               \<lparr>metricSource =
                  LbTargetResponseTime (scope @ [sid, ''Alb'']),
                  period = Minutes (Suc 0), statistic = AVERAGE\<rparr>,
               alarm_options =
                 \<lparr>evaluationPeriods = 3, datapointsToAlarm = None,
                    threshold = 100,
                    comparisonOperator = GREATER_THAN_OR_EQUAL_TO_THRESHOLD,
                    actionsEnabled = True\<rparr>,
               alarmActions = [SnsAction (alarmTopic props)]\<rparr>,
           appliedTags = []\<rparr>,
        scope @ [sid, ''AlbHttp4xx''] \<mapsto>
        \<lparr>construct =
           AlarmC
            \<lparr>alarm_metric =
               \<lparr>metricSource =
                  LbHttpCodeElb (scope @ [sid, ''Alb'']) ELB_4XX_COUNT,
                  period = Minutes (Suc 0), statistic = SUM_statistic\<rparr>,
               alarm_options =
                 \<lparr>evaluationPeriods = 3, datapointsToAlarm = None,
                    threshold = 10,
                    comparisonOperator = GREATER_THAN_OR_EQUAL_TO_THRESHOLD,
                    actionsEnabled = True\<rparr>,
               alarmActions = [SnsAction (alarmTopic props)]\<rparr>,
           appliedTags = []\<rparr>,
        scope @ [sid, ''AlbHttp5xx''] \<mapsto>
        \<lparr>construct =
           AlarmC
            \<lparr>alarm_metric =
               \<lparr>metricSource =
                  LbHttpCodeElb (scope @ [sid, ''Alb'']) ELB_5XX_COUNT,
                  period = Minutes (Suc 0), statistic = SUM_statistic\<rparr>,
               alarm_options =
                 \<lparr>evaluationPeriods = 3, datapointsToAlarm = None,
                    threshold = 10,
                    comparisonOperator = GREATER_THAN_OR_EQUAL_TO_THRESHOLD,
                    actionsEnabled = True\<rparr>,
               alarmActions = [SnsAction (alarmTopic props)]\<rparr>,
           appliedTags = []\<rparr>,
        scope @ [sid, ''AlbTgHealthyHostCount''] \<mapsto>
        \<lparr>construct =
           AlarmC
            \<lparr>alarm_metric =
               \<lparr>metricSource =
                  TargetGroupHealthyHostCount
                   (scope @ [sid, ''AlbFargate'']),
                  period = Minutes (Suc 0), statistic = AVERAGE\<rparr>,
               alarm_options =
                 \<lparr>evaluationPeriods = 3, datapointsToAlarm = None,
                    threshold = 2, comparisonOperator = LESS_THAN_THRESHOLD,
                    actionsEnabled = True\<rparr>,
               alarmActions = [SnsAction (alarmTopic props)]\<rparr>,
           appliedTags = []\<rparr>,
        scope @ [sid, ''WebAcl''] \<mapsto>
        \<lparr>construct =
           CfnWebACLC
            \<lparr>defaultAction = Allow, acl_name = ''GcWebAcl'',
               acl_scope = ''REGIONAL'',
               acl_visibilityConfig =
                 \<lparr>cloudWatchMetricsEnabled = True,
                    metricName = ''GcWebAcl'',
                    sampledRequestsEnabled = True\<rparr>,
               rules =
                 [\<lparr>priority = Suc 0, overrideAction = Count,
                     rule_visibilityConfig =
                       \<lparr>cloudWatchMetricsEnabled = True,
                          metricName = ''AWS-AWSManagedRulesCommonRuleSet'',
                          sampledRequestsEnabled = True\<rparr>,
                     rule_name = ''AWSManagedRulesCommonRuleSet'',
                     statement =
                       ManagedRuleGroupStatement
                        \<lparr>vendorName = ''AWS'',
                           ruleGroupName =
                             ''AWSManagedRulesCommonRuleSet''\<rparr>\<rparr>,
                  \<lparr>priority = 2, overrideAction = Count,
                     rule_visibilityConfig =
                       \<lparr>cloudWatchMetricsEnabled = True,
                          metricName =
                            ''AWS-AWSManagedRulesKnownBadInputsRuleSet'',
                          sampledRequestsEnabled = True\<rparr>,
                     rule_name = ''AWSManagedRulesKnownBadInputsRuleSet'',
                     statement =
                       ManagedRuleGroupStatement
                        \<lparr>vendorName = ''AWS'',
                           ruleGroupName =
                             ''AWSManagedRulesKnownBadInputsRuleSet''\<rparr>\<rparr>,
                  \<lparr>priority = 3, overrideAction = Count,
                     rule_visibilityConfig =
                       \<lparr>cloudWatchMetricsEnabled = True,
                          metricName =
                            ''AWS-AWSManagedRulesAmazonIpReputationList'',
                          sampledRequestsEnabled = True\<rparr>,
                     rule_name = ''AWSManagedRulesAmazonIpReputationList'',
                     statement =
                       ManagedRuleGroupStatement
                        \<lparr>vendorName = ''AWS'',
                           ruleGroupName =
                             ''AWSManagedRulesAmazonIpReputationList''\<rparr>\<rparr>,
                  \<lparr>priority = 4, overrideAction = Count,
                     rule_visibilityConfig =
                       \<lparr>cloudWatchMetricsEnabled = True,
                          metricName = ''AWS-AWSManagedRulesLinuxRuleSet'',
                          sampledRequestsEnabled = True\<rparr>,
                     rule_name = ''AWSManagedRulesLinuxRuleSet'',
                     statement =
                       ManagedRuleGroupStatement
                        \<lparr>vendorName = ''AWS'',
                           ruleGroupName =
                             ''AWSManagedRulesLinuxRuleSet''\<rparr>\<rparr>,
                  \<lparr>priority = 5, overrideAction = Count,
                     rule_visibilityConfig =
                       \<lparr>cloudWatchMetricsEnabled = True,
                          metricName = ''AWS-AWSManagedRulesSQLiRuleSet'',
                          sampledRequestsEnabled = True\<rparr>,
                     rule_name = ''AWSManagedRulesSQLiRuleSet'',
                     statement =
                       ManagedRuleGroupStatement
                        \<lparr>vendorName = ''AWS'',
                           ruleGroupName =
                             ''AWSManagedRulesSQLiRuleSet''\<rparr>\<rparr>]\<rparr>,
           appliedTags = []\<rparr>,
        scope @ [sid, ''BsWebAclAssociation''] \<mapsto>
        \<lparr>construct =
           CfnWebACLAssociationC
            \<lparr>resourceArn = LoadBalancerArn (scope @ [sid, ''Alb'']),
               webAclArn = AttrArn (scope @ [sid, ''WebAcl''])\<rparr>,
           appliedTags = []\<rparr>)"
  by (simp add: GcAlbFargateStack_def Let_def steps UserData_forLinux_def addCommands_def
      selectSubnets_def metricCpuUtilization_def new_Metric_def metricTargetResponseTime_def
      metricHttpCodeElb_def metricHealthyHostCount_def)

lemma GcInvestigationInstanceStack_tree:
  "GcInvestigationInstanceStack scope sid props w =
    w(scope @ [sid] \<mapsto>
        \<lparr>construct =
           GcInvestigationInstanceStackC
            \<lparr>inv_stackProps = StackProps.truncate props,
               InvestigationInstanceSecurityGroup = None\<rparr>,
           appliedTags = []\<rparr>,
        scope @ [sid, ''SgEC2''] \<mapsto>
        \<lparr>construct =
           SecurityGroupC
            \<lparr>sg_props =
               \<lparr>sg_vpc = prodVpc props, sg_allowAllOutbound = None\<rparr>,
               ingressRules = [], egressRules = []\<rparr>,
           appliedTags = []\<rparr>,
        scope @ [sid, ''ssm-instance-role''] \<mapsto>
        \<lparr>construct =
           RoleC
            \<lparr>assumedBy = ServicePrincipal ''ec2.amazonaws.com'',
               role_path = ''/'',
               managedPolicies =
                 [''arn:aws:iam::aws:policy/AmazonSSMManagedInstanceCore'',
                  ''arn:aws:iam::aws:policy/CloudWatchAgentServerPolicy'']\<rparr>,
           appliedTags = []\<rparr>,
        scope @ [sid, ''Investigation''] \<mapsto>
        \<lparr>construct =
           InstanceC
            \<lparr>inst_vpc = prodVpc props,
               inst_vpcSubnets =
                 \<lparr>sel_vpc = prodVpc props, subnetGroupName = ''Protected''\<rparr>,
               inst_instanceType = InstanceType_of T3 MICRO,
               inst_machineImage = AmazonLinuxImage AMAZON_LINUX_2,
               inst_securityGroup = scope @ [sid, ''SgEC2''],
               inst_role = scope @ [sid, ''ssm-instance-role''],
               inst_userData =
                 \<lparr>shebang = ''#!/bin/bash'',
                    commands = [''sudo yum -y install mariadb'']\<rparr>\<rparr>,
           appliedTags =
             [\<lparr>tag_key = ''Environment'', tag_value = environment props,
                 applyToLaunchedInstances = None\<rparr>,
              \<lparr>tag_key = ''Name'', tag_value = ''Investigation'',
                 applyToLaunchedInstances = None\<rparr>]\<rparr>)"
  by (simp add: GcInvestigationInstanceStack_def Let_def steps UserData_forLinux_def addCommands_def
      selectSubnets_def metricCpuUtilization_def new_Metric_def metricTargetResponseTime_def
      metricHttpCodeElb_def metricHealthyHostCount_def)

section \<open>Properties\<close>

text \<open>
  Applied to the empty tree a constructor returns the constructs it creates and nothing
  else, which is how the statements below count the constructs of a stack; what a
  construct holds after construction is stated for every starting tree.
\<close>

subsection \<open>Web ACL of the Fargate stack\<close>

text \<open>
  C1.  Whatever the props, \<open>GcAlbFargateStack\<close> creates one web ACL, \<open>WebAcl\<close>: its default
  action is allow and its rules are the five AWS managed rule groups Common, KnownBadInputs,
  AmazonIpReputationList, Linux and SQLi, referenced by name with vendor \<open>AWS\<close>, with
  priorities 1 to 5 in that order and override action count.  The association
  \<open>BsWebAclAssociation\<close> ties the ARN of that web ACL to the ARN of the stack's application
  load balancer \<open>Alb\<close>.
\<close>

theorem GcAlbFargateStack_webAcl:
  "let this = scope @ [sid]; w' = GcAlbFargateStack scope sid props w in
    (\<exists>acl. webAclAt w' (this @ [''WebAcl'']) = Some acl
       \<and> defaultAction acl = Allow
       \<and> map (\<lambda>r. (priority r, rule_name r, overrideAction r, statement r)) (rules acl) =
          [(1, ''AWSManagedRulesCommonRuleSet'', Count, ManagedRuleGroupStatement
              \<lparr>vendorName = ''AWS'', ruleGroupName = ''AWSManagedRulesCommonRuleSet''\<rparr>),
           (2, ''AWSManagedRulesKnownBadInputsRuleSet'', Count, ManagedRuleGroupStatement
              \<lparr>vendorName = ''AWS'', ruleGroupName = ''AWSManagedRulesKnownBadInputsRuleSet''\<rparr>),
           (3, ''AWSManagedRulesAmazonIpReputationList'', Count, ManagedRuleGroupStatement
              \<lparr>vendorName = ''AWS'', ruleGroupName = ''AWSManagedRulesAmazonIpReputationList''\<rparr>),
           (4, ''AWSManagedRulesLinuxRuleSet'', Count, ManagedRuleGroupStatement
              \<lparr>vendorName = ''AWS'', ruleGroupName = ''AWSManagedRulesLinuxRuleSet''\<rparr>),
           (5, ''AWSManagedRulesSQLiRuleSet'', Count, ManagedRuleGroupStatement
              \<lparr>vendorName = ''AWS'', ruleGroupName = ''AWSManagedRulesSQLiRuleSet''\<rparr>)])
    \<and> {x. webAclAt (GcAlbFargateStack scope sid props Map.empty) x \<noteq> None} =
        {this @ [''WebAcl'']}
    \<and> constructAt w' (this @ [''BsWebAclAssociation'']) =
        Some (CfnWebACLAssociationC
          \<lparr>resourceArn = LoadBalancerArn (this @ [''Alb'']),
           webAclArn = AttrArn (this @ [''WebAcl''])\<rparr>)
    \<and> loadBalancerAt w' (this @ [''Alb'']) \<noteq> None"
proof -
  have only: "(webAclAt (GcAlbFargateStack scope sid props Map.empty) x \<noteq> None) =
      (x = scope @ [sid, ''WebAcl''])" for x
    by (simp add: GcAlbFargateStack_tree readers)
  have "{x. webAclAt (GcAlbFargateStack scope sid props Map.empty) x \<noteq> None} =
      {scope @ [sid, ''WebAcl'']}"
    using only by simp
  then show ?thesis
    by (simp add: GcAlbFargateStack_tree readers)
qed

subsection \<open>Topology of the EC2 application stack\<close>

text \<open>
  C2.  In \<open>BsEc2appStack\<close>, whatever the props, there are two security groups, both created
  with \<open>allowAllOutbound\<close> false.  The first is the security group of the load balancer and
  admits TCP port 80 from any IPv4 address and nothing else; the second is the security
  group of the auto scaling group and admits TCP port 80 from the first and from nothing
  else, also after the framework has opened the way from the load balancer to the group.
  The listener of the load balancer on port 80 has the target group \<open>tg-for-app\<close> (port
  80, HTTP, instance targets) as its only default target group, and the auto scaling group
  is attached to that target group.
\<close>

theorem BsEc2appStack_topology:
  "let this = scope @ [sid]; w' = BsEc2appStack scope sid props w;
       sgAlb = this @ [''security-group-for-alb''];
       sgApp = this @ [''security-group-for-app''];
       lb = this @ [''alb-for-app''];
       fleet = this @ [''auto-scaling-group-app''];
       tg = this @ [''tg-for-app'']
   in
    map_option (\<lambda>s. (sg_allowAllOutbound (sg_props s), set (ingressRules s)))
        (securityGroupAt w' sgAlb) = Some (Some False, {(AnyIpv4, Tcp 80)})
    \<and> map_option (\<lambda>s. (sg_allowAllOutbound (sg_props s), set (ingressRules s)))
        (securityGroupAt w' sgApp) = Some (Some False, {(SecurityGroupPeer sgAlb, Tcp 80)})
    \<and> {x. securityGroupAt (BsEc2appStack scope sid props Map.empty) x \<noteq> None} = {sgAlb, sgApp}
    \<and> map_option (\<lambda>l. alb_securityGroup (alb_props l)) (loadBalancerAt w' lb) = Some sgAlb
    \<and> map_option (\<lambda>g. asg_securityGroup (asg_props g)) (autoScalingGroupAt w' fleet)
        = Some sgApp
    \<and> listenerAt w' (lb @ [''alb-listener-for-app'']) = Some
      \<lparr>listener_port = 80, listener_open = True, defaultTargetGroups = [tg]\<rparr>
    \<and> map_option tg_props (targetGroupAt w' tg) = Some
      \<lparr>tg_vpc = prodVpc props, tg_port = 80, tg_protocol = HTTP, targetType = INSTANCE,
       tg_healthCheck = \<lparr>hc_enabled = True, hc_path = ''/index.html''\<rparr>,
       deregistrationDelay = Seconds 60\<rparr>
    \<and> map_option attachedTargetGroups (autoScalingGroupAt w' fleet) = Some [tg]"
proof -
  have sgs: "(securityGroupAt (BsEc2appStack scope sid props Map.empty) x \<noteq> None) =
      (x = scope @ [sid, ''security-group-for-alb'']
        \<or> x = scope @ [sid, ''security-group-for-app''])" for x
    by (auto simp add: BsEc2appStack_tree readers)
  have both: "{x. securityGroupAt (BsEc2appStack scope sid props Map.empty) x \<noteq> None} =
      {(scope @ [sid]) @ [''security-group-for-alb''],
       (scope @ [sid]) @ [''security-group-for-app'']}"
    using sgs by auto
  show ?thesis
    unfolding Let_def both by (simp add: BsEc2appStack_tree readers)
qed

subsection \<open>Alarms of the Fargate stack\<close>

text \<open>
  C3.  Whatever the props, \<open>GcAlbFargateStack\<close> creates six alarms and no other: CPU
  utilization of the Fargate service (threshold 80, greater or equal, 3 evaluation periods,
  3 datapoints), \<open>RunningTaskCount\<close> of ECS Container Insights (threshold 1, less than, 3
  evaluation periods, 2 datapoints), target response time of the load balancer (threshold
  100, greater or equal), its ELB 4XX count and its ELB 5XX count (threshold 10 each,
  greater or equal) and the healthy host count of the target group (threshold 2, less
  than).  Every metric has a period of one minute, and every alarm has exactly one action,
  the SNS action on \<open>props.alarmTopic\<close>.
\<close>

theorem GcAlbFargateStack_alarms:
  "let this = scope @ [sid]; w' = GcAlbFargateStack scope sid props w;
       notify = [SnsAction (alarmTopic props)]
   in
    alarmAt w' (this @ [''FargateCpuUtil'']) = Some
      \<lparr>alarm_metric =
         \<lparr>metricSource = ServiceCpuUtilization (this @ [''AlbFargate'']),
          period = Minutes 1, statistic = AVERAGE\<rparr>,
       alarm_options =
         \<lparr>evaluationPeriods = 3, datapointsToAlarm = Some 3, threshold = 80,
          comparisonOperator = GREATER_THAN_OR_EQUAL_TO_THRESHOLD, actionsEnabled = True\<rparr>,
       alarmActions = notify\<rparr>
    \<and> alarmAt w' (this @ [''RunningTaskCount'']) = Some
      \<lparr>alarm_metric =
         \<lparr>metricSource = NamedMetric ''RunningTaskCount'' ''ECS/ContainerInsights''
            [(''ClusterName'', ClusterName (this @ [''Cluster''])),
             (''ServiceName'', ServiceName (this @ [''AlbFargate'']))],
          period = Minutes 1, statistic = AVERAGE\<rparr>,
       alarm_options =
         \<lparr>evaluationPeriods = 3, datapointsToAlarm = Some 2, threshold = 1,
          comparisonOperator = LESS_THAN_THRESHOLD, actionsEnabled = True\<rparr>,
       alarmActions = notify\<rparr>
    \<and> alarmAt w' (this @ [''AlbResponseTime'']) = Some
      \<lparr>alarm_metric =
         \<lparr>metricSource = LbTargetResponseTime (this @ [''Alb'']),
          period = Minutes 1, statistic = AVERAGE\<rparr>,
       alarm_options =
         \<lparr>evaluationPeriods = 3, datapointsToAlarm = None, threshold = 100,
          comparisonOperator = GREATER_THAN_OR_EQUAL_TO_THRESHOLD, actionsEnabled = True\<rparr>,
       alarmActions = notify\<rparr>
    \<and> alarmAt w' (this @ [''AlbHttp4xx'']) = Some
      \<lparr>alarm_metric =
         \<lparr>metricSource = LbHttpCodeElb (this @ [''Alb'']) ELB_4XX_COUNT,
          period = Minutes 1, statistic = SUM_statistic\<rparr>,
       alarm_options =
         \<lparr>evaluationPeriods = 3, datapointsToAlarm = None, threshold = 10,
          comparisonOperator = GREATER_THAN_OR_EQUAL_TO_THRESHOLD, actionsEnabled = True\<rparr>,
       alarmActions = notify\<rparr>
    \<and> alarmAt w' (this @ [''AlbHttp5xx'']) = Some
      \<lparr>alarm_metric =
         \<lparr>metricSource = LbHttpCodeElb (this @ [''Alb'']) ELB_5XX_COUNT,
          period = Minutes 1, statistic = SUM_statistic\<rparr>,
       alarm_options =
         \<lparr>evaluationPeriods = 3, datapointsToAlarm = None, threshold = 10,
          comparisonOperator = GREATER_THAN_OR_EQUAL_TO_THRESHOLD, actionsEnabled = True\<rparr>,
       alarmActions = notify\<rparr>
    \<and> alarmAt w' (this @ [''AlbTgHealthyHostCount'']) = Some
      \<lparr>alarm_metric =
         \<lparr>metricSource = TargetGroupHealthyHostCount (this @ [''AlbFargate'']),
          period = Minutes 1, statistic = AVERAGE\<rparr>,
       alarm_options =
         \<lparr>evaluationPeriods = 3, datapointsToAlarm = None, threshold = 2,
          comparisonOperator = LESS_THAN_THRESHOLD, actionsEnabled = True\<rparr>,
       alarmActions = notify\<rparr>
    \<and> {x. alarmAt (GcAlbFargateStack scope sid props Map.empty) x \<noteq> None} =
        (\<lambda>c. this @ [c]) ` {''FargateCpuUtil'', ''RunningTaskCount'', ''AlbResponseTime'',
           ''AlbHttp4xx'', ''AlbHttp5xx'', ''AlbTgHealthyHostCount''}"
proof -
  have six: "{x. alarmAt (GcAlbFargateStack scope sid props Map.empty) x \<noteq> None} =
      (\<lambda>c. (scope @ [sid]) @ [c]) ` {''FargateCpuUtil'', ''RunningTaskCount'',
         ''AlbResponseTime'', ''AlbHttp4xx'', ''AlbHttp5xx'', ''AlbTgHealthyHostCount''}"
    apply (simp add: GcAlbFargateStack_tree readers)
    apply (auto split: if_splits)
    done
  show ?thesis
    unfolding Let_def six
    by (simp add: GcAlbFargateStack_tree readers)
qed

subsection \<open>Values passed between the stacks of the entry file\<close>

text \<open>
  C4.  Whatever the three stack classes compute, the entry file hands the \<open>alarmTopic\<close>
  exposed by the \<open>BLEAEcsAppSampleStack\<close> instance, unchanged, to the frontend stack and to
  the monitoring stack as their \<open>alarmTopic\<close>, and the \<open>distributionId\<close> exposed by the
  frontend stack instance, unchanged, to the monitoring stack as its \<open>distributionId\<close>.
\<close>

theorem entry_wiring:
  "let r = entry devParameter process_env newEcsApp newFrontend newMonitoring in
    ecsapp r = newEcsApp [] ''BLEAEcsAppSampleDev'' (ecsappProps r)
    \<and> frontend r = newFrontend [] ''BLEAEcsFrontendSampleDev'' (frontendProps r)
    \<and> monitoring r = newMonitoring [] ''BLEAEcsMonitoringSampleDev'' (monitoringProps r)
    \<and> frontend_alarmTopic (frontendProps r) = stack_alarmTopic (ecsapp r)
    \<and> monitoring_alarmTopic (monitoringProps r) = stack_alarmTopic (ecsapp r)
    \<and> distributionId (monitoringProps r) = stack_distributionId (frontend r)"
  by (simp add: entry_def Let_def)

subsection \<open>The constructs of a stack do not depend on the props\<close>

text \<open>
  C5.  Each of the three constructors creates a fixed set of constructs: built in the same
  tree from any two props, a stack has the same classes of constructs at the same paths,
  so the props decide neither which constructs exist nor how many; they only fill in
  properties.  In particular every construct the source creates in the scope of the stack
  is there under its id, with its class, whatever the props.
\<close>

theorem constructs_independent_of_props:
  "kinds (BsEc2appStack scope sid bprops w) = kinds (BsEc2appStack scope sid bprops' w)
   \<and> kinds (GcAlbFargateStack scope sid gprops w) = kinds (GcAlbFargateStack scope sid gprops' w)
   \<and> kinds (GcInvestigationInstanceStack scope sid iprops w) =
       kinds (GcInvestigationInstanceStack scope sid iprops' w)
   \<and> kinds (BsEc2appStack scope sid bprops w) (scope @ [sid]) = Some ''BsEc2appStack''
   \<and> list_all (\<lambda>(c, k). kinds (BsEc2appStack scope sid bprops w) (scope @ [sid, c]) = Some k)
       [(''security-group-for-alb'', ''ec2.SecurityGroup''),
        (''security-group-for-app'', ''ec2.SecurityGroup''),
        (''web-content-bucket'', ''s3.Bucket''),
        (''ssm-instance-role'', ''iam.Role''),
        (''auto-scaling-group-app'', ''autoscaling.AutoScalingGroup''),
        (''alb-log-bucket'', ''s3.Bucket''),
        (''alb-for-app'', ''elbv2.ApplicationLoadBalancer''),
        (''tg-for-app'', ''elbv2.ApplicationTargetGroup'')]
   \<and> kinds (GcAlbFargateStack scope sid gprops w) (scope @ [sid]) = Some ''GcAlbFargateStack''
   \<and> list_all (\<lambda>(c, k). kinds (GcAlbFargateStack scope sid gprops w) (scope @ [sid, c]) = Some k)
       [(''SgAlb'', ''ec2.SecurityGroup''),
        (''WebBucket'', ''s3.Bucket''),
        (''Distribution'', ''cloudfront.Distribution''),
        (''alb-log-bucket'', ''s3.Bucket''),
        (''Alb'', ''elbv2.ApplicationLoadBalancer''),
        (''Cluster'', ''ecs.Cluster''),
        (''AlbFargate'', ''ecs_patterns.ApplicationLoadBalancedFargateService''),
        (''FargateCpuUtil'', ''cloudwatch.Alarm''),
        (''RunningTaskCount'', ''cloudwatch.Alarm''),
        (''AlbResponseTime'', ''cloudwatch.Alarm''),
        (''AlbHttp4xx'', ''cloudwatch.Alarm''),
        (''AlbHttp5xx'', ''cloudwatch.Alarm''),
        (''AlbTgHealthyHostCount'', ''cloudwatch.Alarm''),
        (''WebAcl'', ''wafv2.CfnWebACL''),
        (''BsWebAclAssociation'', ''wafv2.CfnWebACLAssociation'')]
   \<and> kinds (GcInvestigationInstanceStack scope sid iprops w) (scope @ [sid]) =
       Some ''GcInvestigationInstanceStack''
   \<and> list_all
       (\<lambda>(c, k). kinds (GcInvestigationInstanceStack scope sid iprops w) (scope @ [sid, c]) = Some k)
       [(''SgEC2'', ''ec2.SecurityGroup''),
        (''ssm-instance-role'', ''iam.Role''),
        (''Investigation'', ''ec2.Instance'')]"
proof -
  have bs: "kinds (BsEc2appStack scope sid bprops w) = kinds (BsEc2appStack scope sid bprops' w)"
    by (rule ext) (simp add: BsEc2appStack_tree kinds_def constructAt_def)
  have gc: "kinds (GcAlbFargateStack scope sid gprops w) =
      kinds (GcAlbFargateStack scope sid gprops' w)"
    by (rule ext) (simp add: GcAlbFargateStack_tree kinds_def constructAt_def)
  have inv: "kinds (GcInvestigationInstanceStack scope sid iprops w) =
      kinds (GcInvestigationInstanceStack scope sid iprops' w)"
    by (rule ext) (simp add: GcInvestigationInstanceStack_tree kinds_def constructAt_def)
  have bs_ids: "kinds (BsEc2appStack scope sid bprops w) (scope @ [sid]) = Some ''BsEc2appStack''"
    "list_all (\<lambda>(c, k). kinds (BsEc2appStack scope sid bprops w) (scope @ [sid, c]) = Some k)
       [(''security-group-for-alb'', ''ec2.SecurityGroup''),
        (''security-group-for-app'', ''ec2.SecurityGroup''),
        (''web-content-bucket'', ''s3.Bucket''),
        (''ssm-instance-role'', ''iam.Role''),
        (''auto-scaling-group-app'', ''autoscaling.AutoScalingGroup''),
        (''alb-log-bucket'', ''s3.Bucket''),
        (''alb-for-app'', ''elbv2.ApplicationLoadBalancer''),
        (''tg-for-app'', ''elbv2.ApplicationTargetGroup'')]"
    by (simp_all add: BsEc2appStack_tree kinds_def constructAt_def)
  have gc_ids:
    "kinds (GcAlbFargateStack scope sid gprops w) (scope @ [sid]) = Some ''GcAlbFargateStack''"
    "list_all (\<lambda>(c, k). kinds (GcAlbFargateStack scope sid gprops w) (scope @ [sid, c]) = Some k)
       [(''SgAlb'', ''ec2.SecurityGroup''),
        (''WebBucket'', ''s3.Bucket''),
        (''Distribution'', ''cloudfront.Distribution''),
        (''alb-log-bucket'', ''s3.Bucket''),
        (''Alb'', ''elbv2.ApplicationLoadBalancer''),
        (''Cluster'', ''ecs.Cluster''),
        (''AlbFargate'', ''ecs_patterns.ApplicationLoadBalancedFargateService''),
        (''FargateCpuUtil'', ''cloudwatch.Alarm''),
        (''RunningTaskCount'', ''cloudwatch.Alarm''),
        (''AlbResponseTime'', ''cloudwatch.Alarm''),
        (''AlbHttp4xx'', ''cloudwatch.Alarm''),
        (''AlbHttp5xx'', ''cloudwatch.Alarm''),
        (''AlbTgHealthyHostCount'', ''cloudwatch.Alarm''),
        (''WebAcl'', ''wafv2.CfnWebACL''),
        (''BsWebAclAssociation'', ''wafv2.CfnWebACLAssociation'')]"
    by (simp_all add: GcAlbFargateStack_tree kinds_def constructAt_def)
  have inv_ids:
    "kinds (GcInvestigationInstanceStack scope sid iprops w) (scope @ [sid]) =
       Some ''GcInvestigationInstanceStack''"
    "list_all
       (\<lambda>(c, k). kinds (GcInvestigationInstanceStack scope sid iprops w) (scope @ [sid, c]) = Some k)
       [(''SgEC2'', ''ec2.SecurityGroup''),
        (''ssm-instance-role'', ''iam.Role''),
        (''Investigation'', ''ec2.Instance'')]"
    by (simp_all add: GcInvestigationInstanceStack_tree kinds_def constructAt_def)
  from bs gc inv bs_ids gc_ids inv_ids show ?thesis by blast
qed

subsection \<open>Construction writes the new stack only and reads its arguments only\<close>

text \<open>
  C6.  Take two trees in which the id of the new stack is free in its scope and which hold
  the same constructs where the props point (the VPC, the log bucket, the key, the topic),
  and build \<open>BsEc2appStack\<close>, or \<open>GcAlbFargateStack\<close>, in both from the same props.  Then the
  two stacks are equal, construct by construct, whatever else the two trees hold: the
  state of the new stack is determined by the arguments of the constructor.  And in each
  tree every construct that is not at or below the path of the new stack is left as it
  was: construction writes nothing but the new stack.
\<close>

theorem construction_effect_free:
  assumes "\<forall>x. prefix (scope @ [sid]) x \<longrightarrow> w x = None"
    and "\<forall>x. prefix (scope @ [sid]) x \<longrightarrow> w' x = None"
    and "w (prodVpc gprops) = w' (prodVpc gprops) \<and> w (logBucket gprops) = w' (logBucket gprops)
      \<and> w (appKey gprops) = w' (appKey gprops) \<and> w (alarmTopic gprops) = w' (alarmTopic gprops)"
    and "w (prodVpc bprops) = w' (prodVpc bprops) \<and> w (logBucket bprops) = w' (logBucket bprops)
      \<and> w (appKey bprops) = w' (appKey bprops)"
  shows "(\<forall>q. BsEc2appStack scope sid bprops w (scope @ sid # q) =
            BsEc2appStack scope sid bprops w' (scope @ sid # q))
    \<and> (\<forall>x. \<not> prefix (scope @ [sid]) x \<longrightarrow> BsEc2appStack scope sid bprops w x = w x)
    \<and> (\<forall>q. GcAlbFargateStack scope sid gprops w (scope @ sid # q) =
            GcAlbFargateStack scope sid gprops w' (scope @ sid # q))
    \<and> (\<forall>x. \<not> prefix (scope @ [sid]) x \<longrightarrow> GcAlbFargateStack scope sid gprops w x = w x)"
proof -
  have inside: "w (scope @ sid # q) = None" "w' (scope @ sid # q) = None" for q
    using assms(1,2) by (simp_all add: prefix_def)
  have outside: "x \<noteq> scope @ sid # q" if "\<not> prefix (scope @ [sid]) x" for x q
    using that by (auto simp: prefix_def)
  have bs_same: "BsEc2appStack scope sid bprops w (scope @ sid # q) =
      BsEc2appStack scope sid bprops w' (scope @ sid # q)" for q
    by (simp add: BsEc2appStack_tree inside)
  have gc_same: "GcAlbFargateStack scope sid gprops w (scope @ sid # q) =
      GcAlbFargateStack scope sid gprops w' (scope @ sid # q)" for q
    by (simp add: GcAlbFargateStack_tree inside)
  have bs_frame: "BsEc2appStack scope sid bprops w x = w x"
    if "\<not> prefix (scope @ [sid]) x" for x
    using outside [OF that] by (simp add: BsEc2appStack_tree)
  have gc_frame: "GcAlbFargateStack scope sid gprops w x = w x"
    if "\<not> prefix (scope @ [sid]) x" for x
    using outside [OF that] by (simp add: GcAlbFargateStack_tree)
  from bs_same gc_same bs_frame gc_frame show ?thesis by blast
qed

theorem construction_effect_free_witness:
  "let scope = [''Dev''];
       bprops = \<lparr>description = None,
          env = Some \<lparr>account = Some ''111122223333'', region = Some ''ap-northeast-1''\<rparr>,
          stackName = None, tags = [], terminationProtection = None,
          crossRegionReferences = None,
          prodVpc = [''Dev'', ''Base'', ''Vpc''], environment = ''dev'',
          logBucket = [''Dev'', ''Base'', ''LogBucket''],
          appKey = [''Dev'', ''Base'', ''Key'']\<rparr>;
       gprops = \<lparr>description = None,
          env = Some \<lparr>account = Some ''111122223333'', region = Some ''ap-northeast-1''\<rparr>,
          stackName = None, tags = [], terminationProtection = None,
          crossRegionReferences = None,
          prodVpc = [''Dev'', ''Base'', ''Vpc''], environment = ''dev'',
          logBucket = [''Dev'', ''Base'', ''LogBucket''],
          appKey = [''Dev'', ''Base'', ''Key''],
          alarmTopic = [''Dev'', ''Base'', ''Topic'']\<rparr>;
       w = [[''Dev'', ''Base'', ''Vpc''] \<mapsto> \<lparr>construct = VpcC, appliedTags = []\<rparr>,
          [''Dev'', ''Base'', ''Key''] \<mapsto> \<lparr>construct = KeyC, appliedTags = []\<rparr>,
          [''Dev'', ''Base'', ''Topic''] \<mapsto> \<lparr>construct = TopicC, appliedTags = []\<rparr>,
          [''Dev'', ''Base'', ''LogBucket''] \<mapsto>
          \<lparr>construct = BucketC
            \<lparr>bucket_props =
               \<lparr>accessControl = Some LOG_DELIVERY_WRITE, lifecycleRules = [],
                removalPolicy = Some RETAIN, versioned = Some True, encryptionKey = None,
                encryption = Some S3_MANAGED, cors = [], blockPublicAccess = Some BLOCK_ALL\<rparr>,
             resourcePolicy = []\<rparr>,
           appliedTags = []\<rparr>];
       w' = [[''Dev'', ''Other'', ''Topic''] \<mapsto> \<lparr>construct = TopicC, appliedTags = []\<rparr>,
          [''Dev'', ''Base'', ''Vpc''] \<mapsto> \<lparr>construct = VpcC, appliedTags = []\<rparr>,
          [''Dev'', ''Base'', ''Key''] \<mapsto> \<lparr>construct = KeyC, appliedTags = []\<rparr>,
          [''Dev'', ''Base'', ''Topic''] \<mapsto> \<lparr>construct = TopicC, appliedTags = []\<rparr>,
          [''Dev'', ''Base'', ''LogBucket''] \<mapsto>
          \<lparr>construct = BucketC
            \<lparr>bucket_props =
               \<lparr>accessControl = Some LOG_DELIVERY_WRITE, lifecycleRules = [],
                removalPolicy = Some RETAIN, versioned = Some True, encryptionKey = None,
                encryption = Some S3_MANAGED, cors = [], blockPublicAccess = Some BLOCK_ALL\<rparr>,
             resourcePolicy = []\<rparr>,
           appliedTags = []\<rparr>]
   in
    dom w = {prodVpc gprops, appKey gprops, alarmTopic gprops, logBucket gprops}
    \<and> dom w' = insert [''Dev'', ''Other'', ''Topic''] (dom w)
    \<and> w (prodVpc gprops) = w' (prodVpc gprops) \<and> w (logBucket gprops) = w' (logBucket gprops)
    \<and> w (appKey gprops) = w' (appKey gprops) \<and> w (alarmTopic gprops) = w' (alarmTopic gprops)
    \<and> w [''Dev'', ''Other'', ''Topic''] \<noteq> w' [''Dev'', ''Other'', ''Topic'']
    \<and> BsEc2appStack scope ''App'' bprops w (scope @ ''App'' # [''alb-log-bucket'']) =
        BsEc2appStack scope ''App'' bprops w' (scope @ ''App'' # [''alb-log-bucket''])
    \<and> BsEc2appStack scope ''App'' bprops w (logBucket bprops) = w (logBucket bprops)
    \<and> GcAlbFargateStack scope ''App'' gprops w (scope @ ''App'' # [''Alb'']) =
        GcAlbFargateStack scope ''App'' gprops w' (scope @ ''App'' # [''Alb''])
    \<and> GcAlbFargateStack scope ''App'' gprops w (logBucket gprops) = w (logBucket gprops)"
proof -
  let ?bprops = "\<lparr>description = None,
          env = Some \<lparr>account = Some ''111122223333'', region = Some ''ap-northeast-1''\<rparr>,
          stackName = None, tags = [], terminationProtection = None,
          crossRegionReferences = None,
          prodVpc = [''Dev'', ''Base'', ''Vpc''], environment = ''dev'',
          logBucket = [''Dev'', ''Base'', ''LogBucket''],
          appKey = [''Dev'', ''Base'', ''Key'']\<rparr>"
  let ?gprops = "\<lparr>description = None,
          env = Some \<lparr>account = Some ''111122223333'', region = Some ''ap-northeast-1''\<rparr>,
          stackName = None, tags = [], terminationProtection = None,
          crossRegionReferences = None,
          prodVpc = [''Dev'', ''Base'', ''Vpc''], environment = ''dev'',
          logBucket = [''Dev'', ''Base'', ''LogBucket''],
          appKey = [''Dev'', ''Base'', ''Key''],
          alarmTopic = [''Dev'', ''Base'', ''Topic'']\<rparr>"
  let ?w = "[[''Dev'', ''Base'', ''Vpc''] \<mapsto> \<lparr>construct = VpcC, appliedTags = []\<rparr>,
          [''Dev'', ''Base'', ''Key''] \<mapsto> \<lparr>construct = KeyC, appliedTags = []\<rparr>,
          [''Dev'', ''Base'', ''Topic''] \<mapsto> \<lparr>construct = TopicC, appliedTags = []\<rparr>,
          [''Dev'', ''Base'', ''LogBucket''] \<mapsto>
          \<lparr>construct = BucketC
            \<lparr>bucket_props =
               \<lparr>accessControl = Some LOG_DELIVERY_WRITE, lifecycleRules = [],
                removalPolicy = Some RETAIN, versioned = Some True, encryptionKey = None,
                encryption = Some S3_MANAGED, cors = [], blockPublicAccess = Some BLOCK_ALL\<rparr>,
             resourcePolicy = []\<rparr>,
           appliedTags = []\<rparr>]"
  let ?w' = "[[''Dev'', ''Other'', ''Topic''] \<mapsto> \<lparr>construct = TopicC, appliedTags = []\<rparr>,
          [''Dev'', ''Base'', ''Vpc''] \<mapsto> \<lparr>construct = VpcC, appliedTags = []\<rparr>,
          [''Dev'', ''Base'', ''Key''] \<mapsto> \<lparr>construct = KeyC, appliedTags = []\<rparr>,
          [''Dev'', ''Base'', ''Topic''] \<mapsto> \<lparr>construct = TopicC, appliedTags = []\<rparr>,
          [''Dev'', ''Base'', ''LogBucket''] \<mapsto>
          \<lparr>construct = BucketC
            \<lparr>bucket_props =
               \<lparr>accessControl = Some LOG_DELIVERY_WRITE, lifecycleRules = [],
                removalPolicy = Some RETAIN, versioned = Some True, encryptionKey = None,
                encryption = Some S3_MANAGED, cors = [], blockPublicAccess = Some BLOCK_ALL\<rparr>,
             resourcePolicy = []\<rparr>,
           appliedTags = []\<rparr>]"
  have free: "\<forall>x. prefix ([''Dev''] @ [''App'']) x \<longrightarrow> ?w x = None"
    "\<forall>x. prefix ([''Dev''] @ [''App'']) x \<longrightarrow> ?w' x = None"
    by (auto simp: prefix_def)
  have agree: "?w (prodVpc ?gprops) = ?w' (prodVpc ?gprops)
      \<and> ?w (logBucket ?gprops) = ?w' (logBucket ?gprops)
      \<and> ?w (appKey ?gprops) = ?w' (appKey ?gprops)
      \<and> ?w (alarmTopic ?gprops) = ?w' (alarmTopic ?gprops)"
    "?w (prodVpc ?bprops) = ?w' (prodVpc ?bprops)
      \<and> ?w (logBucket ?bprops) = ?w' (logBucket ?bprops)
      \<and> ?w (appKey ?bprops) = ?w' (appKey ?bprops)"
    by simp_all
  have outside: "\<not> prefix ([''Dev''] @ [''App'']) (logBucket ?bprops)"
    "\<not> prefix ([''Dev''] @ [''App'']) (logBucket ?gprops)"
    by simp_all
  have differ: "?w [''Dev'', ''Other'', ''Topic''] \<noteq> ?w' [''Dev'', ''Other'', ''Topic'']"
    by simp
  note built = construction_effect_free [OF free agree]
  have same: "BsEc2appStack [''Dev''] ''App'' ?bprops ?w ([''Dev''] @ ''App'' # [''alb-log-bucket'']) =
      BsEc2appStack [''Dev''] ''App'' ?bprops ?w' ([''Dev''] @ ''App'' # [''alb-log-bucket''])"
    "GcAlbFargateStack [''Dev''] ''App'' ?gprops ?w ([''Dev''] @ ''App'' # [''Alb'']) =
      GcAlbFargateStack [''Dev''] ''App'' ?gprops ?w' ([''Dev''] @ ''App'' # [''Alb''])"
    using built by blast+
  have kept: "BsEc2appStack [''Dev''] ''App'' ?bprops ?w (logBucket ?bprops) =
      ?w (logBucket ?bprops)"
    "GcAlbFargateStack [''Dev''] ''App'' ?gprops ?w (logBucket ?gprops) = ?w (logBucket ?gprops)"
    using built outside by blast+
  have doms: "dom ?w = {prodVpc ?gprops, appKey ?gprops, alarmTopic ?gprops, logBucket ?gprops}"
    "dom ?w' = insert [''Dev'', ''Other'', ''Topic''] (dom ?w)"
    by auto
  show ?thesis
    unfolding Let_def
    using doms agree(1) differ same kept by blast
qed

subsection \<open>The web content buckets\<close>

text \<open>
  C7.  In \<open>BsEc2appStack\<close> and in \<open>GcAlbFargateStack\<close>, whatever the props, the bucket for web
  content is created private, not versioned, with removal policy DESTROY and with exactly
  one lifecycle rule: enabled, moving objects to Glacier after 90 days and expiring them
  after 2555 days.
\<close>

theorem webContentBucket_settings:
  "let archive = [\<lparr>enabled = True, expiration = Days 2555,
          transitions = [\<lparr>storageClass = GLACIER, transitionAfter = Days 90\<rparr>]\<rparr>]
   in
    (\<exists>b. bucketAt (BsEc2appStack scope sid bprops w) (scope @ [sid, ''web-content-bucket''])
          = Some b
       \<and> accessControl (bucket_props b) = Some PRIVATE
       \<and> versioned (bucket_props b) = Some False
       \<and> removalPolicy (bucket_props b) = Some DESTROY
       \<and> lifecycleRules (bucket_props b) = archive)
    \<and> (\<exists>b. bucketAt (GcAlbFargateStack scope sid gprops w) (scope @ [sid, ''WebBucket''])
          = Some b
       \<and> accessControl (bucket_props b) = Some PRIVATE
       \<and> versioned (bucket_props b) = Some False
       \<and> removalPolicy (bucket_props b) = Some DESTROY
       \<and> lifecycleRules (bucket_props b) = archive)"
  unfolding Let_def
proof (rule conjI)
  show "\<exists>b. bucketAt (BsEc2appStack scope sid bprops w) (scope @ [sid, ''web-content-bucket''])
          = Some b
       \<and> accessControl (bucket_props b) = Some PRIVATE
       \<and> versioned (bucket_props b) = Some False
       \<and> removalPolicy (bucket_props b) = Some DESTROY
       \<and> lifecycleRules (bucket_props b) = [\<lparr>enabled = True, expiration = Days 2555,
          transitions = [\<lparr>storageClass = GLACIER, transitionAfter = Days 90\<rparr>]\<rparr>]"
    by (simp add: BsEc2appStack_tree readers)
next
  show "\<exists>b. bucketAt (GcAlbFargateStack scope sid gprops w) (scope @ [sid, ''WebBucket''])
          = Some b
       \<and> accessControl (bucket_props b) = Some PRIVATE
       \<and> versioned (bucket_props b) = Some False
       \<and> removalPolicy (bucket_props b) = Some DESTROY
       \<and> lifecycleRules (bucket_props b) = [\<lparr>enabled = True, expiration = Days 2555,
          transitions = [\<lparr>storageClass = GLACIER, transitionAfter = Days 90\<rparr>]\<rparr>]"
    by (simp add: GcAlbFargateStack_tree readers)
qed

subsection \<open>The public security group fields\<close>

text \<open>
  C8.  After construction the field \<open>appServerSecurityGroup\<close> of a \<open>GcAlbFargateStack\<close> and
  the field \<open>InvestigationInstanceSecurityGroup\<close> of a \<open>GcInvestigationInstanceStack\<close> are
  undefined, since their constructors never assign them.  \<open>BsEc2appStack\<close> does assign its
  \<open>appServerSecurityGroup\<close>: it is the security group \<open>security-group-for-app\<close>, the one the
  auto scaling group is given.
\<close>

theorem securityGroup_fields:
  "let this = scope @ [sid] in
    (\<exists>f. constructAt (GcAlbFargateStack scope sid gprops w) this = Some (GcAlbFargateStackC f)
       \<and> appServerSecurityGroup f = None)
    \<and> (\<exists>f. constructAt (GcInvestigationInstanceStack scope sid iprops w) this =
          Some (GcInvestigationInstanceStackC f)
       \<and> InvestigationInstanceSecurityGroup f = None)
    \<and> (\<exists>f. constructAt (BsEc2appStack scope sid bprops w) this = Some (BsEc2appStackC f)
       \<and> appServerSecurityGroup f = Some (this @ [''security-group-for-app'']))
    \<and> securityGroupAt (BsEc2appStack scope sid bprops w) (this @ [''security-group-for-app''])
        \<noteq> None
    \<and> map_option (\<lambda>g. asg_securityGroup (asg_props g))
         (autoScalingGroupAt (BsEc2appStack scope sid bprops w)
            (this @ [''auto-scaling-group-app''])) = Some (this @ [''security-group-for-app''])"
proof -
  have gc: "constructAt (GcAlbFargateStack scope sid gprops w) (scope @ [sid]) =
      Some (GcAlbFargateStackC
        \<lparr>app_stackProps = StackProps.truncate gprops, appServerSecurityGroup = None\<rparr>)"
    by (simp add: GcAlbFargateStack_tree readers)
  have inv: "constructAt (GcInvestigationInstanceStack scope sid iprops w) (scope @ [sid]) =
      Some (GcInvestigationInstanceStackC
        \<lparr>inv_stackProps = StackProps.truncate iprops,
         InvestigationInstanceSecurityGroup = None\<rparr>)"
    by (simp add: GcInvestigationInstanceStack_tree readers)
  have bs: "constructAt (BsEc2appStack scope sid bprops w) (scope @ [sid]) =
      Some (BsEc2appStackC
        \<lparr>app_stackProps = StackProps.truncate bprops,
         appServerSecurityGroup = Some (scope @ [sid, ''security-group-for-app''])\<rparr>)"
    by (simp add: BsEc2appStack_tree readers)
  have sg: "securityGroupAt (BsEc2appStack scope sid bprops w)
      (scope @ [sid, ''security-group-for-app'']) \<noteq> None"
    by (simp add: BsEc2appStack_tree readers)
  have asg: "map_option (\<lambda>g. asg_securityGroup (asg_props g))
      (autoScalingGroupAt (BsEc2appStack scope sid bprops w)
        (scope @ [sid, ''auto-scaling-group-app''])) =
      Some (scope @ [sid, ''security-group-for-app''])"
    by (simp add: BsEc2appStack_tree readers)
  show ?thesis
    unfolding Let_def using gc inv bs sg asg by simp
qed

subsection \<open>The log bucket of the props\<close>

text \<open>
  C9.  \<open>BsEc2appStack\<close> and \<open>GcAlbFargateStack\<close> take a \<open>logBucket\<close> in their props and never
  use it: the tree they build is the same whichever bucket is passed, and the bucket
  itself, which is not a construct of the stack under construction, is the same after
  construction as before.  The access logs of the load balancer go to \<open>alb-log-bucket\<close>, a
  bucket the stack creates itself and which is not the \<open>logBucket\<close> of the props.
\<close>

theorem logBucket_unused:
  assumes "\<not> prefix (scope @ [sid]) (logBucket bprops)"
    and "\<not> prefix (scope @ [sid]) (logBucket gprops)"
  shows "BsEc2appStack scope sid (bprops\<lparr>logBucket := b\<rparr>) w = BsEc2appStack scope sid bprops w
    \<and> GcAlbFargateStack scope sid (gprops\<lparr>logBucket := b\<rparr>) w =
        GcAlbFargateStack scope sid gprops w
    \<and> BsEc2appStack scope sid bprops w (logBucket bprops) = w (logBucket bprops)
    \<and> GcAlbFargateStack scope sid gprops w (logBucket gprops) = w (logBucket gprops)
    \<and> map_option accessLogsBucket
         (loadBalancerAt (BsEc2appStack scope sid bprops w) (scope @ [sid, ''alb-for-app'']))
        = Some (Some (scope @ [sid, ''alb-log-bucket'']))
    \<and> map_option accessLogsBucket
         (loadBalancerAt (GcAlbFargateStack scope sid gprops w) (scope @ [sid, ''Alb'']))
        = Some (Some (scope @ [sid, ''alb-log-bucket'']))
    \<and> bucketAt (BsEc2appStack scope sid bprops Map.empty) (scope @ [sid, ''alb-log-bucket''])
        \<noteq> None
    \<and> bucketAt (GcAlbFargateStack scope sid gprops Map.empty) (scope @ [sid, ''alb-log-bucket''])
        \<noteq> None
    \<and> scope @ [sid, ''alb-log-bucket''] \<noteq> logBucket bprops
    \<and> scope @ [sid, ''alb-log-bucket''] \<noteq> logBucket gprops"
proof -
  have unread: "BsEc2appStack scope sid (bprops\<lparr>logBucket := b\<rparr>) w =
        BsEc2appStack scope sid bprops w"
      "GcAlbFargateStack scope sid (gprops\<lparr>logBucket := b\<rparr>) w =
        GcAlbFargateStack scope sid gprops w"
    by (simp_all add: BsEc2appStack_tree GcAlbFargateStack_tree StackProps.truncate_def)
  have outside: "x \<noteq> scope @ sid # q" if "\<not> prefix (scope @ [sid]) x" for x q
    using that by (auto simp: prefix_def)
  have bs_frame: "BsEc2appStack scope sid bprops w (logBucket bprops) = w (logBucket bprops)"
    using outside [OF assms(1)] by (simp add: BsEc2appStack_tree readers)
  have gc_frame: "GcAlbFargateStack scope sid gprops w (logBucket gprops) = w (logBucket gprops)"
    using outside [OF assms(2)] by (simp add: GcAlbFargateStack_tree readers)
  have logs: "map_option accessLogsBucket
         (loadBalancerAt (BsEc2appStack scope sid bprops w) (scope @ [sid, ''alb-for-app'']))
        = Some (Some (scope @ [sid, ''alb-log-bucket'']))"
      "map_option accessLogsBucket
         (loadBalancerAt (GcAlbFargateStack scope sid gprops w) (scope @ [sid, ''Alb'']))
        = Some (Some (scope @ [sid, ''alb-log-bucket'']))"
      "bucketAt (BsEc2appStack scope sid bprops Map.empty) (scope @ [sid, ''alb-log-bucket''])
        \<noteq> None"
      "bucketAt (GcAlbFargateStack scope sid gprops Map.empty)
         (scope @ [sid, ''alb-log-bucket'']) \<noteq> None"
    by (simp_all add: BsEc2appStack_tree GcAlbFargateStack_tree readers)
  have other: "scope @ [sid, ''alb-log-bucket''] \<noteq> logBucket bprops"
      "scope @ [sid, ''alb-log-bucket''] \<noteq> logBucket gprops"
    using outside [OF assms(1), of "[''alb-log-bucket'']"]
      outside [OF assms(2), of "[''alb-log-bucket'']"] by auto
  from unread bs_frame gc_frame logs other show ?thesis by simp
qed

theorem logBucket_unused_witness:
  "\<not> prefix ([''Dev''] @ [''App'']) [''Dev'', ''Base'', ''LogBucket'']
   \<and> BsEc2appStack [''Dev''] ''App''
        \<lparr>description = None,
         env = Some \<lparr>account = Some ''111122223333'', region = Some ''ap-northeast-1''\<rparr>,
         stackName = None, tags = [],
         terminationProtection = None, crossRegionReferences = None,
         prodVpc = [''Dev'', ''Base'', ''Vpc''], environment = ''dev'',
         logBucket = [''Dev'', ''Base'', ''LogBucket''], appKey = [''Dev'', ''Base'', ''Key'']\<rparr>
        [[''Dev'', ''Base'', ''LogBucket''] \<mapsto> \<lparr>construct = BucketC
           \<lparr>bucket_props =
              \<lparr>accessControl = Some LOG_DELIVERY_WRITE, lifecycleRules = [],
               removalPolicy = Some RETAIN, versioned = Some True, encryptionKey = None,
               encryption = Some S3_MANAGED, cors = [], blockPublicAccess = Some BLOCK_ALL\<rparr>,
            resourcePolicy = []\<rparr>,
          appliedTags = []\<rparr>]
        [''Dev'', ''Base'', ''LogBucket'']
      = Some \<lparr>construct = BucketC
           \<lparr>bucket_props =
              \<lparr>accessControl = Some LOG_DELIVERY_WRITE, lifecycleRules = [],
               removalPolicy = Some RETAIN, versioned = Some True, encryptionKey = None,
               encryption = Some S3_MANAGED, cors = [], blockPublicAccess = Some BLOCK_ALL\<rparr>,
            resourcePolicy = []\<rparr>,
          appliedTags = []\<rparr>
   \<and> GcAlbFargateStack [''Dev''] ''App''
        \<lparr>description = None,
         env = Some \<lparr>account = Some ''111122223333'', region = Some ''ap-northeast-1''\<rparr>,
         stackName = None, tags = [],
         terminationProtection = None, crossRegionReferences = None,
         prodVpc = [''Dev'', ''Base'', ''Vpc''], environment = ''dev'',
         logBucket = [''Dev'', ''Base'', ''LogBucket''], appKey = [''Dev'', ''Base'', ''Key''],
         alarmTopic = [''Dev'', ''Base'', ''Topic'']\<rparr>
        [[''Dev'', ''Base'', ''LogBucket''] \<mapsto> \<lparr>construct = BucketC
           \<lparr>bucket_props =
              \<lparr>accessControl = Some LOG_DELIVERY_WRITE, lifecycleRules = [],
               removalPolicy = Some RETAIN, versioned = Some True, encryptionKey = None,
               encryption = Some S3_MANAGED, cors = [], blockPublicAccess = Some BLOCK_ALL\<rparr>,
            resourcePolicy = []\<rparr>,
          appliedTags = []\<rparr>]
        [''Dev'', ''Base'', ''LogBucket'']
      = Some \<lparr>construct = BucketC
           \<lparr>bucket_props =
              \<lparr>accessControl = Some LOG_DELIVERY_WRITE, lifecycleRules = [],
               removalPolicy = Some RETAIN, versioned = Some True, encryptionKey = None,
               encryption = Some S3_MANAGED, cors = [], blockPublicAccess = Some BLOCK_ALL\<rparr>,
            resourcePolicy = []\<rparr>,
          appliedTags = []\<rparr>"
  using logBucket_unused
    [where scope = "[''Dev'']" and sid = "''App''"
       and bprops = "\<lparr>description = None,
         env = Some \<lparr>account = Some ''111122223333'', region = Some ''ap-northeast-1''\<rparr>,
         stackName = None, tags = [],
         terminationProtection = None, crossRegionReferences = None,
         prodVpc = [''Dev'', ''Base'', ''Vpc''], environment = ''dev'',
         logBucket = [''Dev'', ''Base'', ''LogBucket''],
         appKey = [''Dev'', ''Base'', ''Key'']\<rparr>"
       and gprops = "\<lparr>description = None,
         env = Some \<lparr>account = Some ''111122223333'', region = Some ''ap-northeast-1''\<rparr>,
         stackName = None, tags = [],
         terminationProtection = None, crossRegionReferences = None,
         prodVpc = [''Dev'', ''Base'', ''Vpc''], environment = ''dev'',
         logBucket = [''Dev'', ''Base'', ''LogBucket''], appKey = [''Dev'', ''Base'', ''Key''],
         alarmTopic = [''Dev'', ''Base'', ''Topic'']\<rparr>"
       and w = "[[''Dev'', ''Base'', ''LogBucket''] \<mapsto> \<lparr>construct = BucketC
           \<lparr>bucket_props =
              \<lparr>accessControl = Some LOG_DELIVERY_WRITE, lifecycleRules = [],
               removalPolicy = Some RETAIN, versioned = Some True, encryptionKey = None,
               encryption = Some S3_MANAGED, cors = [], blockPublicAccess = Some BLOCK_ALL\<rparr>,
            resourcePolicy = []\<rparr>,
          appliedTags = []\<rparr>]"]
  by simp

subsection \<open>Resources of the statements that deny access without SSL\<close>

text \<open>
  C10.  The statement that denies every S3 action when \<open>aws:SecureTransport\<close> is false
  names one resource in each stack.  In \<open>BsEc2appStack\<close> it is the ARN of the web content
  bucket itself, and no ARN of objects; in \<open>GcAlbFargateStack\<close> it is the ARN of the bucket
  followed by \<open>/*\<close>, the objects, and not the ARN of the bucket itself.
\<close>

theorem denyWithoutSSL_resources:
  "let bsBucket = scope @ [sid, ''web-content-bucket''];
       gcBucket = scope @ [sid, ''WebBucket'']
   in
    map_option (\<lambda>b. map resources (filter deniesWithoutSSL (resourcePolicy b)))
        (bucketAt (BsEc2appStack scope sid bprops w) bsBucket)
      = Some [[BucketArn bsBucket]]
    \<and> map_option (\<lambda>b. map resources (filter deniesWithoutSSL (resourcePolicy b)))
        (bucketAt (GcAlbFargateStack scope sid gprops w) gcBucket)
      = Some [[Concat (BucketArn gcBucket) (Lit ''/*'')]]
    \<and> BucketArn bsBucket \<noteq> ArnForObjects bsBucket ''*''
    \<and> BucketArn bsBucket \<noteq> Concat (BucketArn bsBucket) (Lit ''/*'')
    \<and> Concat (BucketArn gcBucket) (Lit ''/*'') \<noteq> BucketArn gcBucket"
  by (simp add: BsEc2appStack_tree GcAlbFargateStack_tree readers deniesWithoutSSL_def)

end
